theory Spec2Isabelle
  imports Complex_Main
begin

section \<open>Python values, exceptions and effects\<close>

text \<open>
  The exceptions the modelled code raises or lets through.  All of them are subclasses of
  Python's \<open>Exception\<close>; \<open>Exception\<close> itself stands for whatever an external collaborator
  (the training backend, the data pipeline, scikit-learn) raises.
\<close>

datatype error =
    ValueError string
  | IndexError
  | KeyError string
  | ArithmeticError string
  | TypeError string
  | UnboundLocalError string
  | Exception string

text \<open>
  A statement sequence that reads and writes a state \<open>'s\<close> and either returns a value or
  raises.  The state is returned on both paths: what was written before a \<open>raise\<close> stays
  written.
\<close>

type_synonym ('s, 'a) py = "'s \<Rightarrow> (error + 'a) \<times> 's"

definition py_return :: "'a \<Rightarrow> ('s, 'a) py" where
  "py_return a = (\<lambda>s. (Inr a, s))"

definition py_raise :: "error \<Rightarrow> ('s, 'a) py" where
  "py_raise e = (\<lambda>s. (Inl e, s))"

definition py_bind :: "('s, 'a) py \<Rightarrow> ('a \<Rightarrow> ('s, 'b) py) \<Rightarrow> ('s, 'b) py" where
  "py_bind m f = (\<lambda>s. case m s of (Inl e, s') \<Rightarrow> (Inl e, s') | (Inr a, s') \<Rightarrow> f a s')"

text \<open>A pure computation that may raise, run inside a statement sequence.\<close>

definition py_lift :: "error + 'a \<Rightarrow> ('s, 'a) py" where
  "py_lift r = (\<lambda>s. (r, s))"

section \<open>The genotype store\<close>

text \<open>The values kept in the \<open>training_parameters\<close> and \<open>data_processing\<close> dictionaries.\<close>

datatype pyval = IntV int | StrV string | NoneV

text \<open>
  A layer gene.  The pairing code reads only its \<open>type\<close> attribute; the parameter set is
  carried along.
\<close>

record layer =
  type :: string
  config :: "(string \<times> pyval) list"

text \<open>
  Modelled from the spec: the individual class (\<open>IndividBase\<close>) is not among the source
  files.  The spec describes the pairing operations as direct field overwrites on the
  individual, and the genotype as immutable by convention only, so the three gene groups
  are plain attributes: a read returns the list or dictionary object itself, an
  assignment rebinds the attribute.  An attribute therefore holds the address of a list
  or of a dictionary in the store.
\<close>

record individ =
  architecture :: nat
  training_parameters :: nat
  data_processing :: nat

text \<open>
  The store: individuals, architecture lists and dictionaries by address.  Python has no
  dangling reference, so each component is total.
\<close>

record heap =
  objs :: "nat \<Rightarrow> individ"
  lists :: "nat \<Rightarrow> layer list"
  dicts :: "nat \<Rightarrow> (string \<rightharpoonup> pyval)"

definition get_architecture :: "nat \<Rightarrow> (heap, nat) py" where
  "get_architecture p = (\<lambda>s. (Inr (architecture (objs s p)), s))"

definition get_training_parameters :: "nat \<Rightarrow> (heap, nat) py" where
  "get_training_parameters p = (\<lambda>s. (Inr (training_parameters (objs s p)), s))"

definition get_data_processing :: "nat \<Rightarrow> (heap, nat) py" where
  "get_data_processing p = (\<lambda>s. (Inr (data_processing (objs s p)), s))"

definition set_architecture :: "nat \<Rightarrow> nat \<Rightarrow> (heap, unit) py" where
  "set_architecture p a =
     (\<lambda>s. (Inr (), s\<lparr>objs := (objs s)(p := (objs s p)\<lparr>architecture := a\<rparr>)\<rparr>))"

definition set_training_parameters :: "nat \<Rightarrow> nat \<Rightarrow> (heap, unit) py" where
  "set_training_parameters p t =
     (\<lambda>s. (Inr (), s\<lparr>objs := (objs s)(p := (objs s p)\<lparr>training_parameters := t\<rparr>)\<rparr>))"

definition set_data_processing :: "nat \<Rightarrow> nat \<Rightarrow> (heap, unit) py" where
  "set_data_processing p d =
     (\<lambda>s. (Inr (), s\<lparr>objs := (objs s)(p := (objs s p)\<lparr>data_processing := d\<rparr>)\<rparr>))"

text \<open>The contents of the list at an address, as \<open>len\<close>, a slice or a comprehension read it.\<close>

definition list_read :: "nat \<Rightarrow> (heap, layer list) py" where
  "list_read a = (\<lambda>s. (Inr (lists s a), s))"

text \<open>\<open>xs[i]\<close> and \<open>xs[i] = v\<close> for a non-negative index: out of range raises IndexError.\<close>

definition list_getitem :: "nat \<Rightarrow> nat \<Rightarrow> (heap, layer) py" where
  "list_getitem a i =
     (\<lambda>s. if i < length (lists s a) then (Inr (lists s a ! i), s) else (Inl IndexError, s))"

definition list_setitem :: "nat \<Rightarrow> nat \<Rightarrow> layer \<Rightarrow> (heap, unit) py" where
  "list_setitem a i v =
     (\<lambda>s. if i < length (lists s a)
          then (Inr (), s\<lparr>lists := (lists s)(a := (lists s a)[i := v])\<rparr>)
          else (Inl IndexError, s))"

text \<open>\<open>d[k]\<close> raises KeyError on a missing key; \<open>d[k] = v\<close> inserts or overwrites.\<close>

definition dict_getitem :: "nat \<Rightarrow> string \<Rightarrow> (heap, pyval) py" where
  "dict_getitem d k =
     (\<lambda>s. case dicts s d k of None \<Rightarrow> (Inl (KeyError k), s) | Some v \<Rightarrow> (Inr v, s))"

definition dict_setitem :: "nat \<Rightarrow> string \<Rightarrow> pyval \<Rightarrow> (heap, unit) py" where
  "dict_setitem d k v = (\<lambda>s. (Inr (), s\<lparr>dicts := (dicts s)(d := (dicts s d)(k \<mapsto> v))\<rparr>))"

section \<open>Random choice\<close>

text \<open>
  \<open>np.random.choice(xs)\<close> returns one element of a non-empty sequence and raises
  ValueError on an empty one (the wording of the message differs between numpy
  versions; only the exception class matters below).  The draw is the parameter \<open>r\<close>:
  every element of \<open>xs\<close> is the result for some \<open>r\<close>, and no other value is.
\<close>

definition choice :: "nat \<Rightarrow> 'a list \<Rightarrow> error + 'a" where
  "choice r xs =
     (if xs = [] then Inl (ValueError ''a must be non-empty'')
      else Inr (xs ! (r mod length xs)))"

text \<open>\<open>xs.index(v)\<close>: the first position of \<open>v\<close>, ValueError when there is none.\<close>

fun index :: "'a list \<Rightarrow> 'a \<Rightarrow> error + nat" where
  "index [] v = Inl (ValueError ''value is not in list'')"
| "index (x # xs) v =
     (if x = v then Inr 0
      else case index xs v of Inl e \<Rightarrow> Inl e | Inr i \<Rightarrow> Inr (Suc i))"

text \<open>The slice \<open>xs[1:-1]\<close>: positions \<open>1 .. len(xs) - 2\<close>, empty for fewer than three elements.\<close>

definition slice_1_m1 :: "'a list \<Rightarrow> 'a list" where
  "slice_1_m1 xs = butlast (tl xs)"

section \<open>The pairing module\<close>

text \<open>
  \<open>father_architecture_pairing\<close>: father's architecture, mother's training and data, then
  \<open>individ.data_processing['sentences_length'] = father.data_processing['sentences_length']\<close>
  (the right-hand side is evaluated first).
\<close>

definition father_architecture_pairing :: "nat \<Rightarrow> nat \<Rightarrow> nat \<Rightarrow> (heap, nat) py" where
  "father_architecture_pairing individ father mother =
     py_bind (get_architecture father) (\<lambda>fa.
     py_bind (set_architecture individ fa) (\<lambda>_.
     py_bind (get_training_parameters mother) (\<lambda>mt.
     py_bind (set_training_parameters individ mt) (\<lambda>_.
     py_bind (get_data_processing mother) (\<lambda>md.
     py_bind (set_data_processing individ md) (\<lambda>_.
     py_bind (get_data_processing father) (\<lambda>fd.
     py_bind (dict_getitem fd ''sentences_length'') (\<lambda>v.
     py_bind (get_data_processing individ) (\<lambda>d.
     py_bind (dict_setitem d ''sentences_length'' v) (\<lambda>_.
     py_return individ))))))))))"

text \<open>
  \<open>father_architecture_layers_pairing\<close>: both indices are drawn from \<open>range(1, len(...))\<close>
  before anything is assigned; \<open>r1\<close> and \<open>r2\<close> are the two draws.
\<close>

definition father_architecture_layers_pairing ::
  "nat \<Rightarrow> nat \<Rightarrow> nat \<Rightarrow> nat \<Rightarrow> nat \<Rightarrow> (heap, nat) py" where
  "father_architecture_layers_pairing r1 r2 individ father mother =
     py_bind (get_architecture father) (\<lambda>fa0.
     py_bind (list_read fa0) (\<lambda>fl.
     py_bind (py_lift (choice r1 [1..<length fl])) (\<lambda>changes_layer.
     py_bind (get_architecture mother) (\<lambda>ma0.
     py_bind (list_read ma0) (\<lambda>ml.
     py_bind (py_lift (choice r2 [1..<length ml])) (\<lambda>alter_layer.
     py_bind (get_architecture father) (\<lambda>fa.
     py_bind (set_architecture individ fa) (\<lambda>_.
     py_bind (get_architecture mother) (\<lambda>ma.
     py_bind (list_getitem ma alter_layer) (\<lambda>g.
     py_bind (get_architecture individ) (\<lambda>ia.
     py_bind (list_setitem ia changes_layer g) (\<lambda>_.
     py_bind (get_training_parameters father) (\<lambda>ft.
     py_bind (set_training_parameters individ ft) (\<lambda>_.
     py_bind (get_data_processing father) (\<lambda>fd.
     py_bind (set_data_processing individ fd) (\<lambda>_.
     py_return individ))))))))))))))))"

text \<open>
  \<open>set(tmp_father) & set(tmp_mother)\<close> listed: the common types, each once.  The order of
  a Python set is unspecified; the draw ranges over all of it whatever the order.
\<close>

definition intersections_list :: "string list \<Rightarrow> string list \<Rightarrow> string list" where
  "intersections_list tmp_father tmp_mother =
     remdups (filter (\<lambda>t. t \<in> set tmp_mother) tmp_father)"

text \<open>
  \<open>father_architecture_parameter_pairing\<close>.  The branch for an empty intersection assigns
  the three attributes and ends without a \<open>return\<close>: control goes on to the draw.
\<close>

definition father_architecture_parameter_pairing ::
  "nat \<Rightarrow> nat \<Rightarrow> nat \<Rightarrow> nat \<Rightarrow> (heap, nat) py" where
  "father_architecture_parameter_pairing r individ father mother =
     py_bind (get_architecture father) (\<lambda>fa0.
     py_bind (list_read fa0) (\<lambda>fl.
     py_bind (get_architecture mother) (\<lambda>ma0.
     py_bind (list_read ma0) (\<lambda>ml.
     (let tmp_father = map type (slice_1_m1 fl);
          tmp_mother = map type (slice_1_m1 ml);
          intersections = intersections_list tmp_father tmp_mother
      in
     py_bind (if intersections = [] then
                py_bind (get_architecture father) (\<lambda>fa.
                py_bind (set_architecture individ fa) (\<lambda>_.
                py_bind (get_training_parameters father) (\<lambda>ft.
                py_bind (set_training_parameters individ ft) (\<lambda>_.
                py_bind (get_data_processing father) (\<lambda>fd.
                set_data_processing individ fd)))))
              else py_return ()) (\<lambda>_.
     py_bind (py_lift (choice r intersections)) (\<lambda>intersected_layer.
     py_bind (py_lift (index tmp_father intersected_layer)) (\<lambda>i.
     py_bind (py_lift (index tmp_mother intersected_layer)) (\<lambda>j.
     (let changes_layer = i + 1; alter_layer = j + 1 in
     py_bind (get_architecture father) (\<lambda>fa.
     py_bind (set_architecture individ fa) (\<lambda>_.
     py_bind (get_architecture mother) (\<lambda>ma.
     py_bind (list_getitem ma alter_layer) (\<lambda>g.
     py_bind (get_architecture individ) (\<lambda>ia.
     py_bind (list_setitem ia changes_layer g) (\<lambda>_.
     py_bind (get_training_parameters father) (\<lambda>ft.
     py_bind (set_training_parameters individ ft) (\<lambda>_.
     py_bind (get_data_processing father) (\<lambda>fd.
     py_bind (set_data_processing individ fd) (\<lambda>_.
     py_return individ))))))))))))))))))))"

text \<open>
  \<open>father_data_processing_pairing\<close>: mother's architecture and training, father's data,
  then \<open>individ.architecture[0] = father.architecture[0]\<close>.
\<close>

definition father_data_processing_pairing :: "nat \<Rightarrow> nat \<Rightarrow> nat \<Rightarrow> (heap, nat) py" where
  "father_data_processing_pairing individ father mother =
     py_bind (get_architecture mother) (\<lambda>ma.
     py_bind (set_architecture individ ma) (\<lambda>_.
     py_bind (get_training_parameters mother) (\<lambda>mt.
     py_bind (set_training_parameters individ mt) (\<lambda>_.
     py_bind (get_data_processing father) (\<lambda>fd.
     py_bind (set_data_processing individ fd) (\<lambda>_.
     py_bind (get_architecture father) (\<lambda>fa.
     py_bind (list_getitem fa 0) (\<lambda>g.
     py_bind (get_architecture individ) (\<lambda>ia.
     py_bind (list_setitem ia 0 g) (\<lambda>_.
     py_return individ))))))))))"

text \<open>\<open>father_training_pairing\<close>: father's training, mother's architecture and data.\<close>

definition father_training_pairing :: "nat \<Rightarrow> nat \<Rightarrow> nat \<Rightarrow> (heap, nat) py" where
  "father_training_pairing individ father mother =
     py_bind (get_architecture mother) (\<lambda>ma.
     py_bind (set_architecture individ ma) (\<lambda>_.
     py_bind (get_training_parameters father) (\<lambda>ft.
     py_bind (set_training_parameters individ ft) (\<lambda>_.
     py_bind (get_data_processing mother) (\<lambda>md.
     py_bind (set_data_processing individ md) (\<lambda>_.
     py_return individ))))))"

text \<open>
  \<open>peform_pairing\<close> dispatches on the tag.  The result is the individual a strategy returns
  (\<open>Some\<close>) or Python's \<open>None\<close>.
\<close>

definition returning :: "('s, 'a) py \<Rightarrow> ('s, 'a option) py" where
  "returning m = py_bind m (\<lambda>a. py_return (Some a))"

definition peform_pairing ::
  "nat \<Rightarrow> nat \<Rightarrow> nat \<Rightarrow> nat \<Rightarrow> nat \<Rightarrow> string \<Rightarrow> (heap, nat option) py" where
  "peform_pairing r1 r2 individ father mother pairing_type =
     (if pairing_type = ''father_architecture'' then
        returning (father_architecture_pairing individ father mother)
      else if pairing_type = ''father_architecture_layers'' then
        returning (father_architecture_layers_pairing r1 r2 individ father mother)
      else if pairing_type = ''father_architecture_parameter'' then
        returning (father_architecture_parameter_pairing r1 individ father mother)
      else if pairing_type = ''father_training'' then
        returning (father_training_pairing individ father mother)
      else if pairing_type = ''father_data_processing'' then
        returning (father_data_processing_pairing individ father mother)
      else py_return None)"

section \<open>The genotype factory\<close>

text \<open>
  Modelled from the spec: the classes \<open>IndividText\<close> and \<open>IndividImage\<close> are not among the
  source files.  The spec says only that the factory constructs a text-flavoured or an
  image-flavoured individual and passes \<open>parents\<close> and \<open>freeze\<close> through uninterpreted,
  so a constructed individual is its flavour with the arguments it was given.
\<close>

record individ_args =
  arg_stage :: int
  arg_task_type :: string
  arg_parents :: "(nat \<times> nat) option"
  arg_freeze :: "bool option"
  arg_kwargs :: "(string \<times> pyval) list"

datatype individual = IndividText individ_args | IndividImage individ_args

text \<open>\<open>cradle\<close> of \<open>architecture/cradle.py\<close>; the first argument is called \<open>epochs\<close> there.\<close>

definition cradle ::
  "int \<Rightarrow> string \<Rightarrow> string \<Rightarrow> (nat \<times> nat) option \<Rightarrow> bool option \<Rightarrow> (string \<times> pyval) list
     \<Rightarrow> error + individual" where
  \<open>cradle epochs data_type task_type parents freeze kwargs =
     (if data_type = ''text'' then
        Inr (IndividText \<lparr>arg_stage = epochs, arg_task_type = task_type, arg_parents = parents,
                          arg_freeze = freeze, arg_kwargs = kwargs\<rparr>)
      else if data_type = ''image'' then
        Inr (IndividImage \<lparr>arg_stage = epochs, arg_task_type = task_type, arg_parents = parents,
                           arg_freeze = freeze, arg_kwargs = kwargs\<rparr>)
      else
        Inl (ValueError
          ''Incorrect "data_type" argument.Available values: "text", "image"''))\<close>

text \<open>
  \<open>cradle\<close> of \<open>architecture/architecture_interface.py\<close>: the same two branches and no
  \<open>else\<close>, so the function body ends and Python returns \<open>None\<close>.
\<close>

definition architecture_interface_cradle ::
  "int \<Rightarrow> string \<Rightarrow> string \<Rightarrow> (nat \<times> nat) option \<Rightarrow> bool option \<Rightarrow> (string \<times> pyval) list
     \<Rightarrow> error + individual option" where
  "architecture_interface_cradle stage data_type task_type parents freeze kwargs =
     (if data_type = ''text'' then
        Inr (Some (IndividText \<lparr>arg_stage = stage, arg_task_type = task_type, arg_parents = parents,
                                arg_freeze = freeze, arg_kwargs = kwargs\<rparr>))
      else if data_type = ''image'' then
        Inr (Some (IndividImage \<lparr>arg_stage = stage, arg_task_type = task_type, arg_parents = parents,
                                 arg_freeze = freeze, arg_kwargs = kwargs\<rparr>))
      else Inr None)"

section \<open>The evaluator\<close>

text \<open>
  The state of an \<open>Evaluator\<close> object; the field \<open>self_x\<close> is the attribute \<open>self._x\<close>, and
  so on.  Samples are opaque (\<open>'x\<close>); a label, like a prediction, is a row of numbers,
  one per class.  Numbers are idealised as reals.
\<close>

record 'x evaluator =
  self_x :: "'x list"
  self_y :: "real list list"
  self_kfold_number :: int
  self_device :: string
  self_generator :: bool
  self_create_tokens :: bool
  self_use_multiprocessing :: bool
  self_workers :: int
  self_early_stopping_min_delta :: real
  self_early_stopping_patience :: int
  self_verbose :: int
  self_fitness_measure :: string

text \<open>\<open>Evaluator.__init__\<close>.\<close>

definition Evaluator_init ::
  "'x list \<Rightarrow> real list list \<Rightarrow> int \<Rightarrow> string \<Rightarrow> bool \<Rightarrow> error + 'x evaluator" where
  \<open>Evaluator_init x y kfold_number device generator =
     (let mk = (\<lambda>d. \<lparr>self_x = x, self_y = y, self_kfold_number = kfold_number,
                      self_device = d, self_generator = generator,
                      self_create_tokens = True, self_use_multiprocessing = True,
                      self_workers = 2, self_early_stopping_min_delta = 5 / 1000,
                      self_early_stopping_patience = 5, self_verbose = 0,
                      self_fitness_measure = ''AUC''\<rparr>)
      in if device = ''cpu'' then Inr (mk ''/device:CPU:0'')
         else if device = ''gpu'' then Inr (mk ''/device:GPU:0'')
         else Inl (ValueError
           ''Incorrect "device" argument.Available values: "gpu", "cpu"''))\<close>

text \<open>
  The setter of the \<open>device\<close> property: \<open>self._device = device\<close> comes first, the test of
  the value after it.
\<close>

definition device_setter :: "string \<Rightarrow> ('x evaluator, unit) py" where
  \<open>device_setter device =
     py_bind (\<lambda>self. (Inr (), self\<lparr>self_device := device\<rparr>)) (\<lambda>_.
       if device = ''cpu'' then (\<lambda>self. (Inr (), self\<lparr>self_device := ''/device:CPU:0''\<rparr>))
       else if device = ''gpu'' then (\<lambda>self. (Inr (), self\<lparr>self_device := ''/device:GPU:0''\<rparr>))
       else py_raise (ValueError
         ''Incorrect "device" argument.Available values: "gpu", "cpu"''))\<close>

text \<open>
  The network handed to \<open>fit\<close>: the attributes the evaluator reads.  \<open>init_tf_graph\<close> is
  among the collaborators below.
\<close>

record network =
  network_data_type :: string
  network_task_type :: string
  network_data_processing :: "string \<rightharpoonup> pyval"
  network_training_parameters :: "string \<rightharpoonup> pyval"
  network_options :: "string \<rightharpoonup> pyval"

text \<open>
  The code outside the repository that \<open>fit\<close>, \<open>fit_generator\<close> and \<open>test_classification\<close>
  call, taken as parameters: the data pipeline (\<open>Data(...).process_data()\<close>,
  \<open>DataGenerator(...)\<close>), scikit-learn (\<open>StratifiedKFold(n_splits).split\<close> by the number
  of samples and the labels, \<open>roc_curve\<close>, \<open>auc\<close>, \<open>f1_score\<close> with \<open>average=None\<close>) and
  the training backend (\<open>network.init_tf_graph()\<close>, the model's \<open>compile\<close>, \<open>fit\<close>,
  \<open>predict\<close>, \<open>fit_generator\<close>, \<open>predict_generator\<close>, and the pair
  \<open>tf.reset_default_graph(); K.clear_session()\<close>).  Each may raise.  The backend and the
  pipeline have a state of their own, \<open>'w\<close>, which holds the device scope too.
\<close>

record ('x, 'nn, 'gen, 'w) collaborators =
  process_data ::
    "'x list \<Rightarrow> real list list \<Rightarrow> network \<Rightarrow> bool \<Rightarrow> ('w, 'x list \<times> real list list) py"
  stratified_kfold :: "int \<Rightarrow> nat \<Rightarrow> nat list \<Rightarrow> error + (nat list \<times> nat list) list"
  init_tf_graph :: "string \<Rightarrow> network \<Rightarrow> ('w, 'nn) py"
  nn_compile :: "string \<Rightarrow> 'nn \<Rightarrow> ('w, unit) py"
  nn_fit ::
    "string \<Rightarrow> 'nn \<Rightarrow> 'x list \<times> real list list \<Rightarrow> pyval \<Rightarrow> pyval
       \<Rightarrow> 'x list \<times> real list list \<Rightarrow> real \<times> int \<times> int \<Rightarrow> ('w, unit) py"
  nn_predict :: "string \<Rightarrow> 'nn \<Rightarrow> 'x list \<Rightarrow> ('w, real list list) py"
  data_generator :: "'x list \<Rightarrow> real list list \<Rightarrow> network \<Rightarrow> bool \<Rightarrow> ('w, 'gen) py"
  nn_fit_generator ::
    "string \<Rightarrow> 'nn \<Rightarrow> 'gen \<Rightarrow> pyval \<Rightarrow> int \<Rightarrow> real \<times> int \<Rightarrow> 'gen \<Rightarrow> int \<times> bool
       \<Rightarrow> ('w, unit) py"
  nn_predict_generator :: "string \<Rightarrow> 'nn \<Rightarrow> 'gen \<Rightarrow> int \<times> bool \<Rightarrow> ('w, real list list) py"
  reset_session :: "('w, unit) py"
  roc_curve :: "real list \<Rightarrow> real list \<Rightarrow> error + real list \<times> real list"
  auc :: "real list \<Rightarrow> real list \<Rightarrow> error + real"
  f1_score :: "nat list \<Rightarrow> nat list \<Rightarrow> error + real list"

text \<open>\<open>try: body except Exception: handler\<close>.\<close>

definition py_try :: "('s, 'a) py \<Rightarrow> (error \<Rightarrow> ('s, 'a) py) \<Rightarrow> ('s, 'a) py" where
  "py_try m h = (\<lambda>s. case m s of (Inl e, s') \<Rightarrow> h e s' | (Inr a, s') \<Rightarrow> (Inr a, s'))"

text \<open>\<open>d[k]\<close> on a dictionary held by value.\<close>

definition getitem :: "(string \<rightharpoonup> pyval) \<Rightarrow> string \<Rightarrow> error + pyval" where
  "getitem d k = (case d k of None \<Rightarrow> Inl (KeyError k) | Some v \<Rightarrow> Inr v)"

text \<open>\<open>a[idx]\<close> for an array and a list of indices: IndexError when one is out of range.\<close>

definition take_rows :: "'a list \<Rightarrow> nat list \<Rightarrow> error + 'a list" where
  "take_rows a idx =
     (if \<forall>i \<in> set idx. i < length a then Inr (map (\<lambda>i. a ! i) idx) else Inl IndexError)"

text \<open>
  \<open>np.array(rows).argmax(-1)\<close>: for each row the first position of its maximum.  An empty
  array and an empty row have no maximum (ValueError).
\<close>

definition argmax_row :: "real list \<Rightarrow> error + nat" where
  "argmax_row r =
     (if r = [] then Inl (ValueError ''attempt to get argmax of an empty sequence'')
      else index r (Max (set r)))"

fun argmax_rows :: "real list list \<Rightarrow> error + nat list" where
  "argmax_rows [] = Inr []"
| "argmax_rows (r # rs) =
     (case argmax_row r of Inl e \<Rightarrow> Inl e
      | Inr i \<Rightarrow> (case argmax_rows rs of Inl e \<Rightarrow> Inl e | Inr js \<Rightarrow> Inr (i # js)))"

definition argmax :: "real list list \<Rightarrow> error + nat list" where
  "argmax rows =
     (if rows = [] then Inl (ValueError ''attempt to get argmax of an empty sequence'')
      else argmax_rows rows)"

text \<open>
  \<open>np.array(rows)[:, i]\<close>: column \<open>i\<close>.  The array has two axes only when there is a row
  and all rows have one length; otherwise, and for \<open>i\<close> beyond the row length, the
  indexing raises.
\<close>

definition column :: "real list list \<Rightarrow> nat \<Rightarrow> error + real list" where
  "column rows i =
     (if rows \<noteq> [] \<and> (\<forall>r \<in> set rows. length r = length (hd rows)) \<and> i < length (hd rows)
      then Inr (map (\<lambda>r. r ! i) rows) else Inl IndexError)"

text \<open>
  The \<open>try\<close> of the AUC loop for class \<open>i\<close>: both columns, then \<open>roc_curve\<close>; the
  thresholds it returns are dropped.
\<close>

definition class_curve ::
  "('x, 'nn, 'gen, 'w) collaborators \<Rightarrow> real list list \<Rightarrow> real list list \<Rightarrow> nat
     \<Rightarrow> error + real list \<times> real list" where
  "class_curve cb real_out predicted_out i =
     (case column real_out i of Inl e \<Rightarrow> Inl e
      | Inr rc \<Rightarrow> (case column predicted_out i of Inl e \<Rightarrow> Inl e
          | Inr pc \<Rightarrow> roc_curve cb rc pc))"

text \<open>
  The AUC loop over \<open>range(classes)\<close>.  The handler replaces a failed curve by
  \<open>np.zeros(len(real_out)), np.zeros(len(predicted_out))\<close>; \<open>auc\<close> is called outside the
  \<open>try\<close>.  (The handler's \<open>print\<close> is left out.)
\<close>

fun auc_loop ::
  "('x, 'nn, 'gen, 'w) collaborators \<Rightarrow> real list list \<Rightarrow> real list list \<Rightarrow> nat list
     \<Rightarrow> real list \<Rightarrow> error + real list" where
  "auc_loop cb real_out predicted_out [] roc_auc = Inr roc_auc"
| "auc_loop cb real_out predicted_out (i # is) roc_auc =
     (let (fpr_i, tpr_i) =
        (case class_curve cb real_out predicted_out i of
           Inr c \<Rightarrow> c
         | Inl e \<Rightarrow> (replicate (length real_out) 0, replicate (length predicted_out) 0))
      in case auc cb fpr_i tpr_i of
           Inl e \<Rightarrow> Inl e
         | Inr a \<Rightarrow> auc_loop cb real_out predicted_out is (roc_auc @ [a]))"

text \<open>\<open>Evaluator.test_classification\<close>; \<open>range(classes)\<close> is empty for \<open>classes \<le> 0\<close>.\<close>

definition test_classification ::
  "('x, 'nn, 'gen, 'w) collaborators \<Rightarrow> 'x evaluator \<Rightarrow> real list list \<Rightarrow> real list list \<Rightarrow> int
     \<Rightarrow> error + real" where
  "test_classification cb self predicted_out real_out classes =
     (if self_fitness_measure self = ''f1'' then
        (case argmax predicted_out of Inl e \<Rightarrow> Inl e
         | Inr predicted \<Rightarrow> (case argmax real_out of Inl e \<Rightarrow> Inl e
           | Inr real_cls \<Rightarrow> (case f1_score cb real_cls predicted of Inl e \<Rightarrow> Inl e
             | Inr f1 \<Rightarrow> Inr (sum_list f1))))
      else if self_fitness_measure self = ''AUC'' then
        (case auc_loop cb real_out predicted_out [0..<nat classes] [] of
           Inl e \<Rightarrow> Inl e
         | Inr roc_auc \<Rightarrow> Inr (sum_list roc_auc))
      else Inl (TypeError ''Unrecognized fitness measure''))"

text \<open>
  The folds of \<open>fit\<close>.  For \<open>kfold_number \<noteq> 1\<close> the split is by the labels
  \<open>y.argmax(-1)\<close> of the processed data; otherwise it is the one-element list
  \<open>[[list(range(self._x.shape[0]))] * 2]\<close>, whose element unpacks into \<open>train\<close> and \<open>test\<close>.
\<close>

definition fit_kfold_generator ::
  "('x, 'nn, 'gen, 'w) collaborators \<Rightarrow> 'x evaluator \<Rightarrow> real list list
     \<Rightarrow> error + (nat list \<times> nat list) list" where
  "fit_kfold_generator cb self y =
     (if self_kfold_number self \<noteq> 1 then
        (case argmax y of Inl e \<Rightarrow> Inl e
         | Inr labels \<Rightarrow>
             stratified_kfold cb (self_kfold_number self) (length (self_x self)) labels)
      else Inr [([0..<length (self_x self)], [0..<length (self_x self)])])"

text \<open>The folds of \<open>fit_generator\<close>: the labels of the split are \<open>np.zeros(len(self._y))\<close>.\<close>

definition fit_generator_kfold_generator ::
  "('x, 'nn, 'gen, 'w) collaborators \<Rightarrow> 'x evaluator \<Rightarrow> error + (nat list \<times> nat list) list" where
  "fit_generator_kfold_generator cb self =
     (if self_kfold_number self \<noteq> 1 then
        stratified_kfold cb (self_kfold_number self) (length (self_x self))
          (replicate (length (self_y self)) 0)
      else Inr [([0..<length (self_x self)], [0..<length (self_x self)])])"

text \<open>
  The body of the \<open>try\<close> in the loop of \<open>fit\<close>, up to \<open>real = y[test]\<close>: what one fold
  contributes to \<open>predicted_out\<close> and \<open>real_out\<close>.
\<close>

definition fit_fold ::
  "('x, 'nn, 'gen, 'w) collaborators \<Rightarrow> 'x evaluator \<Rightarrow> network \<Rightarrow> 'x list \<Rightarrow> real list list
     \<Rightarrow> nat list \<Rightarrow> nat list \<Rightarrow> ('w, real list list \<times> real list list) py" where
  "fit_fold cb self network x y train test =
     py_bind (init_tf_graph cb (self_device self) network) (\<lambda>nn.
     py_bind (nn_compile cb (self_device self) nn) (\<lambda>_.
     py_bind (py_lift (take_rows x train)) (\<lambda>x_train.
     py_bind (py_lift (take_rows y train)) (\<lambda>y_train.
     py_bind (py_lift (getitem (network_training_parameters network) ''batchs'')) (\<lambda>batch_size.
     py_bind (py_lift (getitem (network_training_parameters network) ''epochs'')) (\<lambda>epochs.
     py_bind (py_lift (take_rows x test)) (\<lambda>x_test.
     py_bind (py_lift (take_rows y test)) (\<lambda>y_test.
     py_bind (nn_fit cb (self_device self) nn (x_train, y_train) batch_size epochs
                (x_test, y_test)
                (self_early_stopping_min_delta self, self_early_stopping_patience self,
                 self_verbose self)) (\<lambda>_.
     py_bind (py_lift (take_rows x test)) (\<lambda>x_test.
     py_bind (nn_predict cb (self_device self) nn x_test) (\<lambda>predicted.
     py_bind (py_lift (take_rows y test)) (\<lambda>real_rows.
     py_return (predicted, real_rows)))))))))))))"

text \<open>
  The loop of \<open>fit\<close> over the folds.  Any exception of the body is replaced by
  \<open>ArithmeticError('Tensor could not be compiled')\<close>, which leaves the loop and the
  function; the session is reset after a fold that did not raise.  (The handler's
  \<open>print\<close> is left out.)
\<close>

fun fit_loop ::
  "('x, 'nn, 'gen, 'w) collaborators \<Rightarrow> 'x evaluator \<Rightarrow> network \<Rightarrow> 'x list \<Rightarrow> real list list
     \<Rightarrow> (nat list \<times> nat list) list \<Rightarrow> real list list \<times> real list list
     \<Rightarrow> ('w, real list list \<times> real list list) py" where
  "fit_loop cb self network x y [] out = py_return out"
| "fit_loop cb self network x y ((train, test) # folds) out =
     py_bind (py_try (fit_fold cb self network x y train test)
                (\<lambda>e. py_raise (ArithmeticError ''Tensor could not be compiled'')))
       (\<lambda>(predicted, real_rows).
     py_bind (reset_session cb) (\<lambda>_.
     fit_loop cb self network x y folds (fst out @ predicted, snd out @ real_rows)))"

text \<open>
  What follows the loop in both \<open>fit\<close> and \<open>fit_generator\<close>: \<open>result\<close> is assigned only for
  a classification task, and \<open>return result\<close> raises on an unassigned name.
\<close>

definition classes_of :: "pyval \<Rightarrow> error + int" where
  "classes_of v =
     (case v of IntV n \<Rightarrow> Inr n
      | _ \<Rightarrow> Inl (TypeError ''object cannot be interpreted as an integer''))"

definition fitness_result ::
  "('x, 'nn, 'gen, 'w) collaborators \<Rightarrow> 'x evaluator \<Rightarrow> network
     \<Rightarrow> real list list \<times> real list list \<Rightarrow> error + real" where
  "fitness_result cb self network out =
     (if network_task_type network = ''classification'' then
        (case getitem (network_options network) ''classes'' of Inl e \<Rightarrow> Inl e
         | Inr v \<Rightarrow> (case classes_of v of Inl e \<Rightarrow> Inl e
           | Inr classes \<Rightarrow> test_classification cb self (fst out) (snd out) classes))
      else Inl (UnboundLocalError ''result''))"

text \<open>\<open>Evaluator.fit\<close>.\<close>

definition fit ::
  "('x, 'nn, 'gen, 'w) collaborators \<Rightarrow> 'x evaluator \<Rightarrow> network \<Rightarrow> ('w, real) py" where
  "fit cb self network =
     py_bind (process_data cb (self_x self) (self_y self) network (self_create_tokens self))
       (\<lambda>(x, y).
     py_bind (py_lift (fit_kfold_generator cb self y)) (\<lambda>kfold_generator.
     py_bind (fit_loop cb self network x y kfold_generator ([], [])) (\<lambda>out.
     py_lift (fitness_result cb self network out))))"

text \<open>One fold of \<open>fit_generator\<close>; there is no \<open>try\<close> around it.\<close>

definition fit_generator_fold ::
  "('x, 'nn, 'gen, 'w) collaborators \<Rightarrow> 'x evaluator \<Rightarrow> network \<Rightarrow> nat list \<Rightarrow> nat list
     \<Rightarrow> ('w, real list list \<times> real list list) py" where
  "fit_generator_fold cb self network train test =
     py_bind (py_lift (take_rows (self_x self) train)) (\<lambda>x_train.
     py_bind (py_lift (take_rows (self_y self) train)) (\<lambda>y_train.
     py_bind (data_generator cb x_train y_train network (self_create_tokens self))
       (\<lambda>train_generator.
     py_bind (py_lift (take_rows (self_x self) test)) (\<lambda>x_test.
     py_bind (py_lift (take_rows (self_y self) test)) (\<lambda>y_test.
     py_bind (data_generator cb x_test y_test network (self_create_tokens self))
       (\<lambda>test_generator.
     py_bind (init_tf_graph cb (self_device self) network) (\<lambda>nn.
     py_bind (nn_compile cb (self_device self) nn) (\<lambda>_.
     py_bind (py_lift (getitem (network_training_parameters network) ''epochs'')) (\<lambda>epochs.
     py_bind (nn_fit_generator cb (self_device self) nn train_generator epochs
                (self_verbose self)
                (self_early_stopping_min_delta self, self_early_stopping_patience self)
                test_generator (self_workers self, self_use_multiprocessing self)) (\<lambda>_.
     py_bind (nn_predict_generator cb (self_device self) nn test_generator
                (self_workers self, self_use_multiprocessing self)) (\<lambda>predicted.
     py_bind (py_lift (take_rows (self_y self) test)) (\<lambda>real_rows.
     py_return (predicted, real_rows)))))))))))))"

fun fit_generator_loop ::
  "('x, 'nn, 'gen, 'w) collaborators \<Rightarrow> 'x evaluator \<Rightarrow> network
     \<Rightarrow> (nat list \<times> nat list) list \<Rightarrow> real list list \<times> real list list
     \<Rightarrow> ('w, real list list \<times> real list list) py" where
  "fit_generator_loop cb self network [] out = py_return out"
| "fit_generator_loop cb self network ((train, test) # folds) out =
     py_bind (fit_generator_fold cb self network train test) (\<lambda>(predicted, real_rows).
     py_bind (reset_session cb) (\<lambda>_.
     fit_generator_loop cb self network folds (fst out @ predicted, snd out @ real_rows)))"

text \<open>\<open>Evaluator.fit_generator\<close>.\<close>

definition fit_generator ::
  "('x, 'nn, 'gen, 'w) collaborators \<Rightarrow> 'x evaluator \<Rightarrow> network \<Rightarrow> ('w, real) py" where
  "fit_generator cb self network =
     py_bind (py_lift (fit_generator_kfold_generator cb self)) (\<lambda>kfold_generator.
     py_bind (fit_generator_loop cb self network kfold_generator ([], [])) (\<lambda>out.
     py_lift (fitness_result cb self network out)))"

section \<open>Example data\<close>

text \<open>
  A store with a target individual at address 0, a father at 1 and a mother at 2, each
  parent with an architecture list and two dictionaries of its own.
\<close>

definition ex_layer :: "string \<Rightarrow> int \<Rightarrow> layer" where
  "ex_layer t u = \<lparr>type = t, config = [(''units'', IntV u)]\<rparr>"

definition ex_store :: "layer list \<Rightarrow> layer list \<Rightarrow> heap" where
  "ex_store fl ml = \<lparr>
     objs = (\<lambda>_. \<lparr>architecture = 0, training_parameters = 0, data_processing = 0\<rparr>)
       (1 := \<lparr>architecture = 10, training_parameters = 11, data_processing = 12\<rparr>,
        2 := \<lparr>architecture = 20, training_parameters = 21, data_processing = 22\<rparr>),
     lists = (\<lambda>_. [])(10 := fl, 20 := ml),
     dicts = (\<lambda>_. Map.empty)
       (11 := [''epochs'' \<mapsto> IntV 5, ''batchs'' \<mapsto> IntV 32],
        12 := [''sentences_length'' \<mapsto> IntV 10],
        21 := [''epochs'' \<mapsto> IntV 7, ''batchs'' \<mapsto> IntV 8],
        22 := [''sentences_length'' \<mapsto> IntV 20, ''classes'' \<mapsto> IntV 2])\<rparr>"

definition ex_father :: "layer list" where
  "ex_father = [ex_layer ''embedding'' 1, ex_layer ''lstm'' 1, ex_layer ''dense'' 1]"

definition ex_mother :: "layer list" where
  "ex_mother = [ex_layer ''embedding'' 2, ex_layer ''cnn'' 2, ex_layer ''dense'' 2]"

definition ex_mother_lstm :: "layer list" where
  "ex_mother_lstm = [ex_layer ''embedding'' 2, ex_layer ''cnn'' 2, ex_layer ''lstm'' 2,
     ex_layer ''dense'' 2]"

text \<open>
  Stand-ins for the external collaborators: a backend whose second graph construction
  fails, a split into \<open>n_splits\<close> folds by index modulo \<open>n_splits\<close>, a \<open>roc_curve\<close> that
  raises when the true column has no positive sample, and the trapezoid rule for \<open>auc\<close>,
  which needs two points.
\<close>

fun trapezoid :: "real list \<Rightarrow> real list \<Rightarrow> real" where
  "trapezoid (x0 # x1 # xs) (y0 # y1 # ys) =
     (x1 - x0) * (y0 + y1) / 2 + trapezoid (x1 # xs) (y1 # ys)"
| "trapezoid xs ys = 0"

definition ex_auc :: "real list \<Rightarrow> real list \<Rightarrow> error + real" where
  "ex_auc xs ys =
     (if length xs < 2 then Inl (ValueError ''At least 2 points are needed'')
      else Inr (trapezoid xs ys))"

definition ex_roc_curve :: "real list \<Rightarrow> real list \<Rightarrow> error + real list \<times> real list" where
  "ex_roc_curve y_true y_score =
     (if 1 \<notin> set y_true then Inl (ValueError ''No positive samples in y_true'')
      else Inr ([0, 0, 1], [0, 1, 1]))"

definition ex_collaborators :: "(nat, unit, unit, nat) collaborators" where
  "ex_collaborators = \<lparr>
     process_data = (\<lambda>x y network create_tokens. py_return (x, y)),
     stratified_kfold = (\<lambda>n_splits n labels.
        if n_splits < 2 then Inl (ValueError ''n_splits'')
        else Inr (map (\<lambda>j. (filter (\<lambda>i. i mod nat n_splits \<noteq> j) [0..<n],
                            filter (\<lambda>i. i mod nat n_splits = j) [0..<n]))
                   [0..<nat n_splits])),
     init_tf_graph = (\<lambda>device network w.
        if w = 1 then (Inl (Exception ''graph''), w) else (Inr (), Suc w)),
     nn_compile = (\<lambda>device nn. py_return ()),
     nn_fit = (\<lambda>device nn train batch_size epochs validation_data early_stopping.
        py_return ()),
     nn_predict = (\<lambda>device nn xs. py_return (map (\<lambda>_. [1, 0]) xs)),
     data_generator = (\<lambda>x y network create_tokens. py_return ()),
     nn_fit_generator = (\<lambda>device nn train_generator epochs verbose early_stopping
        test_generator workers. py_return ()),
     nn_predict_generator = (\<lambda>device nn test_generator workers. py_return [[1, 0]]),
     reset_session = py_return (),
     roc_curve = ex_roc_curve,
     auc = ex_auc,
     f1_score = (\<lambda>y_true y_pred. Inr [1])\<rparr>"

definition ex_self :: "int \<Rightarrow> nat evaluator" where
  "ex_self k = \<lparr>self_x = [7, 8], self_y = [[1, 0], [0, 1]], self_kfold_number = k,
     self_device = ''/device:CPU:0'', self_generator = False, self_create_tokens = True,
     self_use_multiprocessing = True, self_workers = 2,
     self_early_stopping_min_delta = 5 / 1000, self_early_stopping_patience = 5,
     self_verbose = 0, self_fitness_measure = ''AUC''\<rparr>"

definition ex_network :: network where
  "ex_network = \<lparr>network_data_type = ''text'', network_task_type = ''classification'',
     network_data_processing = [''sentences_length'' \<mapsto> IntV 10],
     network_training_parameters = [''epochs'' \<mapsto> IntV 3, ''batchs'' \<mapsto> IntV 32],
     network_options = [''classes'' \<mapsto> IntV 2]\<rparr>"

section \<open>Basic facts\<close>

lemmas py_defs = py_return_def py_raise_def py_bind_def py_lift_def returning_def
  get_architecture_def get_training_parameters_def get_data_processing_def
  set_architecture_def set_training_parameters_def set_data_processing_def
  list_read_def list_getitem_def list_setitem_def dict_getitem_def dict_setitem_def

lemmas ex_defs = ex_layer_def ex_store_def ex_father_def ex_mother_def ex_mother_lstm_def

lemmas pairing_eval = peform_pairing_def father_architecture_pairing_def
  father_architecture_layers_pairing_def father_architecture_parameter_pairing_def
  father_data_processing_pairing_def father_training_pairing_def py_defs choice_def
  intersections_list_def slice_1_m1_def ex_defs

text \<open>
  The individual record has three fields and nothing else, so an update can be written
  as a full record.
\<close>

lemma individ_upd_architecture:
  "(r::individ)\<lparr>architecture := a\<rparr> =
     \<lparr>architecture = a, training_parameters = training_parameters r,
      data_processing = data_processing r\<rparr>"
  by (cases r) simp

lemma individ_upd_training_parameters:
  "(r::individ)\<lparr>training_parameters := t\<rparr> =
     \<lparr>architecture = architecture r, training_parameters = t,
      data_processing = data_processing r\<rparr>"
  by (cases r) simp

lemma individ_upd_data_processing:
  "(r::individ)\<lparr>data_processing := d\<rparr> =
     \<lparr>architecture = architecture r, training_parameters = training_parameters r,
      data_processing = d\<rparr>"
  by (cases r) simp

lemma individ_eta:
  "\<lparr>architecture = architecture r, training_parameters = training_parameters r,
    data_processing = data_processing r\<rparr> = (r::individ)"
  by (cases r) simp

lemmas individ_simps = individ_upd_architecture individ_upd_training_parameters
  individ_upd_data_processing individ_eta

text \<open>
  A draw from \<open>range(1, n)\<close> lies in the range, and every position of the range is
  drawn for some \<open>r\<close>.
\<close>

lemma choice_range:
  "2 \<le> n \<Longrightarrow> \<exists>c. choice r [1..<n] = Inr c \<and> 1 \<le> c \<and> c < n"
proof -
  assume n: "2 \<le> n"
  then have "0 < n - 1" by simp
  then have "r mod (n - 1) < n - 1" by (rule mod_less_divisor)
  then have "1 + r mod (n - 1) < n" by linarith
  with n show ?thesis by (simp add: choice_def)
qed

lemma choice_reach:
  "1 \<le> c \<Longrightarrow> c < n \<Longrightarrow> choice (c - 1) [1..<n] = Inr c"
  by (simp add: choice_def)

lemma choice_mem: "choice r xs = Inr x \<Longrightarrow> x \<in> set xs"
  by (auto simp: choice_def split: if_splits)

lemma choice_Nil: "choice r [] = Inl (ValueError ''a must be non-empty'')"
  by (simp add: choice_def)

lemma index_Inr: "index xs v = Inr i \<Longrightarrow> i < length xs \<and> xs ! i = v"
  by (induction xs arbitrary: i) (auto split: if_splits sum.splits)

lemma index_mem: "v \<in> set xs \<Longrightarrow> \<exists>i. index xs v = Inr i"
  by (induction xs) auto

lemma length_slice_1_m1: "length (slice_1_m1 xs) = length xs - 2"
  by (simp add: slice_1_m1_def)

lemma nth_slice_1_m1: "i < length xs - 2 \<Longrightarrow> slice_1_m1 xs ! i = xs ! Suc i"
  by (simp add: slice_1_m1_def nth_butlast nth_tl)

lemma intersections_list_set:
  "set (intersections_list xs ys) = set xs \<inter> set ys"
  by (auto simp: intersections_list_def)

lemma returning_Inr:
  "returning m s = (Inr res, s') \<longleftrightarrow> (\<exists>a. res = Some a \<and> m s = (Inr a, s'))"
  by (auto simp: returning_def py_bind_def py_return_def split: prod.splits sum.splits)

section \<open>What each strategy does to the store\<close>

lemma father_architecture_exact:
  assumes "individ \<noteq> father"
  shows "father_architecture_pairing individ father mother s =
    (let s1 = s\<lparr>objs := (objs s)(individ :=
                 \<lparr>architecture = architecture (objs s father),
                  training_parameters = training_parameters (objs s mother),
                  data_processing = data_processing (objs s mother)\<rparr>)\<rparr>
     in case dicts s (data_processing (objs s father)) ''sentences_length'' of
          None \<Rightarrow> (Inl (KeyError ''sentences_length''), s1)
        | Some v \<Rightarrow> (Inr individ,
            s1\<lparr>dicts := (dicts s)(data_processing (objs s mother) :=
               (dicts s (data_processing (objs s mother)))(''sentences_length'' \<mapsto> v))\<rparr>))"
  using assms
  by (auto simp: father_architecture_pairing_def py_defs Let_def individ_simps split: option.splits)

lemma layers_exact:
  assumes "individ \<noteq> mother"
    and c: "choice r1 [1..<length (lists s (architecture (objs s father)))] = Inr c"
    and a: "choice r2 [1..<length (lists s (architecture (objs s mother)))] = Inr a"
  shows "father_architecture_layers_pairing r1 r2 individ father mother s =
    (Inr individ,
     s\<lparr>objs := (objs s)(individ := objs s father),
       lists := (lists s)(architecture (objs s father) :=
          (lists s (architecture (objs s father)))
             [c := lists s (architecture (objs s mother)) ! a])\<rparr>)"
proof -
  from choice_mem[OF c] have c': "c < length (lists s (architecture (objs s father)))" by simp
  from choice_mem[OF a] have a': "a < length (lists s (architecture (objs s mother)))" by simp
  show ?thesis using assms c' a'
    by (auto simp: father_architecture_layers_pairing_def py_defs individ_simps)
qed

lemma layers_result:
  assumes im: "individ \<noteq> mother"
    and res: "father_architecture_layers_pairing r1 r2 individ father mother s = (Inr res, s')"
  shows "\<exists>c a. 1 \<le> c \<and> c < length (lists s (architecture (objs s father)))
           \<and> 1 \<le> a \<and> a < length (lists s (architecture (objs s mother)))
           \<and> res = individ
           \<and> s' = s\<lparr>objs := (objs s)(individ := objs s father),
                    lists := (lists s)(architecture (objs s father) :=
                      (lists s (architecture (objs s father)))
                        [c := lists s (architecture (objs s mother)) ! a])\<rparr>"
proof (cases "choice r1 [1..<length (lists s (architecture (objs s father)))]")
  case (Inl e)
  with res show ?thesis
    by (simp add: father_architecture_layers_pairing_def py_defs)
next
  case c: (Inr c)
  show ?thesis
  proof (cases "choice r2 [1..<length (lists s (architecture (objs s mother)))]")
    case (Inl e)
    with res c show ?thesis
      by (simp add: father_architecture_layers_pairing_def py_defs)
  next
    case a: (Inr a)
    from choice_mem [OF c] have c': "1 \<le> c" "c < length (lists s (architecture (objs s father)))"
      by simp_all
    from choice_mem [OF a] have a': "1 \<le> a" "a < length (lists s (architecture (objs s mother)))"
      by simp_all
    from layers_exact [OF im c a] res have "res = individ" and
      "s' = s\<lparr>objs := (objs s)(individ := objs s father),
                    lists := (lists s)(architecture (objs s father) :=
                      (lists s (architecture (objs s father)))
                        [c := lists s (architecture (objs s mother)) ! a])\<rparr>"
      by auto
    with c' a' show ?thesis
      by - (rule exI [of _ c], rule exI [of _ a], simp)
  qed
qed

lemma training_exact:
  "father_training_pairing individ father mother s =
    (Inr individ, s\<lparr>objs := (objs s)(individ :=
                 \<lparr>architecture = architecture (objs s mother),
                  training_parameters = training_parameters (objs s father),
                  data_processing = data_processing (objs s mother)\<rparr>)\<rparr>)"
  by (cases "individ = father"; cases "individ = mother")
     (auto simp: father_training_pairing_def py_defs individ_simps)

lemma training_frame:
  "father_training_pairing individ father mother s = (r, s') \<Longrightarrow>
     lists s' = lists s \<and> dicts s' = dicts s \<and> (\<forall>p. p \<noteq> individ \<longrightarrow> objs s' p = objs s p)"
  by (auto simp: father_training_pairing_def py_defs)

lemma data_processing_exact:
  assumes "individ \<noteq> father"
  shows "father_data_processing_pairing individ father mother s =
    (let s1 = s\<lparr>objs := (objs s)(individ :=
                 \<lparr>architecture = architecture (objs s mother),
                  training_parameters = training_parameters (objs s mother),
                  data_processing = data_processing (objs s father)\<rparr>)\<rparr>;
         fl = lists s (architecture (objs s father));
         ml = lists s (architecture (objs s mother))
     in if fl = [] then (Inl IndexError, s1)
        else if ml = [] then (Inl IndexError, s1)
        else (Inr individ,
            s1\<lparr>lists := (lists s)(architecture (objs s mother) := ml[0 := fl ! 0])\<rparr>))"
  using assms
  by (auto simp: father_data_processing_pairing_def py_defs Let_def individ_simps)

lemma parameter_empty:
  assumes "set (map type (slice_1_m1 (lists s (architecture (objs s father))))) \<inter>
           set (map type (slice_1_m1 (lists s (architecture (objs s mother))))) = {}"
  shows "father_architecture_parameter_pairing r individ father mother s =
     (Inl (ValueError ''a must be non-empty''),
      s\<lparr>objs := (objs s)(individ := objs s father)\<rparr>)"
proof -
  have "set (intersections_list (map type (slice_1_m1 (lists s (architecture (objs s father)))))
         (map type (slice_1_m1 (lists s (architecture (objs s mother)))))) = {}"
    using assms by (simp only: intersections_list_set)
  then have e: "intersections_list (map type (slice_1_m1 (lists s (architecture (objs s father)))))
         (map type (slice_1_m1 (lists s (architecture (objs s mother))))) = []"
    by simp
  show ?thesis
    by (cases "individ = father")
       (auto simp: father_architecture_parameter_pairing_def py_defs Let_def e choice_def individ_simps)
qed

lemma parameter_exact:
  assumes im: "individ \<noteq> mother"
    and res: "father_architecture_parameter_pairing r individ father mother s = (Inr res, s')"
  shows "\<exists>c a. 1 \<le> c \<and> c + 1 < length (lists s (architecture (objs s father)))
           \<and> 1 \<le> a \<and> a + 1 < length (lists s (architecture (objs s mother)))
           \<and> type (lists s (architecture (objs s father)) ! c) =
               type (lists s (architecture (objs s mother)) ! a)
           \<and> res = individ
           \<and> s' = s\<lparr>objs := (objs s)(individ := objs s father),
                    lists := (lists s)(architecture (objs s father) :=
                      (lists s (architecture (objs s father)))
                        [c := lists s (architecture (objs s mother)) ! a])\<rparr>"
proof -
  let ?fl = "lists s (architecture (objs s father))"
  let ?ml = "lists s (architecture (objs s mother))"
  let ?tf = "map type (slice_1_m1 ?fl)"
  let ?tm = "map type (slice_1_m1 ?ml)"
  let ?is = "intersections_list ?tf ?tm"
  have ne: "?is \<noteq> []"
  proof
    assume "?is = []"
    then have "set ?tf \<inter> set ?tm = {}"
      by (simp only: intersections_list_set [symmetric] set_empty)
    from parameter_empty [OF this] res show False by simp
  qed
  then obtain t where t: "choice r ?is = Inr t" by (auto simp: choice_def)
  from choice_mem [OF t] have tin: "t \<in> set ?tf" "t \<in> set ?tm"
    by (simp_all only: intersections_list_set Int_iff)
  from index_mem [OF tin(1)] obtain i where i: "index ?tf t = Inr i" ..
  from index_mem [OF tin(2)] obtain j where j: "index ?tm t = Inr j" ..
  from index_Inr [OF i] have i': "i < length ?fl - 2" "?tf ! i = t"
    by (simp_all add: length_slice_1_m1)
  from index_Inr [OF j] have j': "j < length ?ml - 2" "?tm ! j = t"
    by (simp_all add: length_slice_1_m1)
  have ty: "type (?fl ! Suc i) = type (?ml ! Suc j)"
    using i' j' by (simp add: length_slice_1_m1 nth_slice_1_m1)
  have run: "father_architecture_parameter_pairing r individ father mother s =
     (Inr individ, s\<lparr>objs := (objs s)(individ := objs s father),
                    lists := (lists s)(architecture (objs s father) :=
                      ?fl[Suc i := ?ml ! Suc j])\<rparr>)"
    using im ne t i j i'(1) j'(1)
    by (cases "individ = father")
       (auto simp: father_architecture_parameter_pairing_def py_defs Let_def individ_simps)
  with res have "res = individ" and
    "s' = s\<lparr>objs := (objs s)(individ := objs s father),
                    lists := (lists s)(architecture (objs s father) :=
                      ?fl[Suc i := ?ml ! Suc j])\<rparr>"
    by auto
  with ty i'(1) j'(1) show ?thesis
    by - (rule exI [of _ "Suc i"], rule exI [of _ "Suc j"], simp add: less_diff_conv)
qed

text \<open>
  With a common body type the parameter strategy does substitute: here father's
  \<open>lstm\<close> gene at position 1 is replaced by mother's \<open>lstm\<close> gene from position 2.
\<close>

lemma parameter_pairing_shared_type_example:
  "fst (peform_pairing 0 0 0 1 2 ''father_architecture_parameter''
          (ex_store ex_father ex_mother_lstm)) = Inr (Some 0)
   \<and> lists (snd (peform_pairing 0 0 0 1 2 ''father_architecture_parameter''
                   (ex_store ex_father ex_mother_lstm))) 10
       = [ex_layer ''embedding'' 1, ex_layer ''lstm'' 2, ex_layer ''dense'' 1]"
  by (simp add: pairing_eval)

section \<open>Properties of the pairing module\<close>

text \<open>
  Claim C1.  The claim: when the body genes of father and mother (positions
  \<open>1 .. len - 2\<close>) share no layer type, the \<open>father_architecture_parameter\<close> strategy
  returns the individual with father's architecture, training parameters and data
  processing, and raises nothing.  The code assigns the three attributes in the branch
  for the empty intersection, but the branch has no \<open>return\<close>: control reaches
  \<open>np.random.choice\<close> on the empty list, and the call ends in ValueError.  The theorem
  states what the code does for every such pair of parents.
\<close>

theorem parameter_pairing_empty_intersection_raises:
  assumes "set (map type (slice_1_m1 (lists s (architecture (objs s father))))) \<inter>
           set (map type (slice_1_m1 (lists s (architecture (objs s mother))))) = {}"
  shows "peform_pairing r1 r2 individ father mother ''father_architecture_parameter'' s =
     (Inl (ValueError ''a must be non-empty''),
      s\<lparr>objs := (objs s)(individ := objs s father)\<rparr>)"
  using parameter_empty [OF assms, of r1 individ]
  by (simp add: peform_pairing_def returning_def py_bind_def)

theorem parameter_pairing_empty_intersection_raises_witness:
  "set (map type (slice_1_m1 (lists (ex_store ex_father ex_mother)
           (architecture (objs (ex_store ex_father ex_mother) 1))))) \<inter>
   set (map type (slice_1_m1 (lists (ex_store ex_father ex_mother)
           (architecture (objs (ex_store ex_father ex_mother) 2))))) = {}
   \<and> fst (peform_pairing 0 0 0 1 2 ''father_architecture_parameter''
            (ex_store ex_father ex_mother)) = Inl (ValueError ''a must be non-empty'')"
proof -
  have h: "set (map type (slice_1_m1 (lists (ex_store ex_father ex_mother)
           (architecture (objs (ex_store ex_father ex_mother) 1))))) \<inter>
   set (map type (slice_1_m1 (lists (ex_store ex_father ex_mother)
           (architecture (objs (ex_store ex_father ex_mother) 2))))) = {}"
    by (simp add: ex_defs slice_1_m1_def)
  from parameter_pairing_empty_intersection_raises [OF h, of 0 0 0]
  have "fst (peform_pairing 0 0 0 1 2 ''father_architecture_parameter''
            (ex_store ex_father ex_mother)) = Inl (ValueError ''a must be non-empty'')"
    by simp
  with h show ?thesis by (rule conjI)
qed

text \<open>
  Claim C2.  The claim: after \<open>peform_pairing\<close> returns, father's and mother's
  architecture, training parameters and data processing are what they were before.
  It fails: the target's attributes are bound to the parents' own list and dictionary
  objects, and three strategies then write through the target.  In the example store
  \<open>father_architecture_layers\<close> replaces gene 1 of father's list, \<open>father_architecture\<close>
  sets mother's \<open>sentences_length\<close> from 20 to 10, and \<open>father_data_processing\<close>
  replaces gene 0 of mother's list.
\<close>

theorem parents_mutated_counterexample:
  "fst (peform_pairing 0 1 0 1 2 ''father_architecture_layers'' (ex_store ex_father ex_mother))
      = Inr (Some 0)
   \<and> lists (ex_store ex_father ex_mother)
        (architecture (objs (ex_store ex_father ex_mother) 1)) = ex_father
   \<and> lists (snd (peform_pairing 0 1 0 1 2 ''father_architecture_layers''
                   (ex_store ex_father ex_mother)))
        (architecture (objs (snd (peform_pairing 0 1 0 1 2 ''father_architecture_layers''
                   (ex_store ex_father ex_mother))) 1))
      = [ex_layer ''embedding'' 1, ex_layer ''dense'' 2, ex_layer ''dense'' 1]
   \<and> dicts (ex_store ex_father ex_mother)
        (data_processing (objs (ex_store ex_father ex_mother) 2)) ''sentences_length''
      = Some (IntV 20)
   \<and> dicts (snd (peform_pairing 0 0 0 1 2 ''father_architecture''
                   (ex_store ex_father ex_mother)))
        (data_processing (objs (snd (peform_pairing 0 0 0 1 2 ''father_architecture''
                   (ex_store ex_father ex_mother))) 2)) ''sentences_length''
      = Some (IntV 10)
   \<and> lists (ex_store ex_father ex_mother)
        (architecture (objs (ex_store ex_father ex_mother) 2)) ! 0 = ex_layer ''embedding'' 2
   \<and> lists (snd (peform_pairing 0 0 0 1 2 ''father_data_processing''
                   (ex_store ex_father ex_mother)))
        (architecture (objs (snd (peform_pairing 0 0 0 1 2 ''father_data_processing''
                   (ex_store ex_father ex_mother))) 2)) ! 0 = ex_layer ''embedding'' 1"
  by (simp add: pairing_eval)

text \<open>
  Claim C2, amended.  For a target distinct from both parents, a call that returns
  rebinds attributes of the target only: every other individual, father and mother
  included, still refers to the same list and the same dictionaries.  The contents of
  the lists and dictionaries are as before except for one write: \<open>father_architecture\<close>
  stores father's \<open>sentences_length\<close> in mother's data-processing dictionary;
  \<open>father_architecture_layers\<close> replaces one gene of father's list, at a position from 1
  on, by a mother gene from a position from 1 on; \<open>father_architecture_parameter\<close> does
  the same with body positions holding genes of one type; \<open>father_data_processing\<close>
  replaces gene 0 of mother's list by father's gene 0; \<open>father_training\<close> and an
  unrecognised tag change no list and no dictionary.
\<close>

theorem peform_pairing_frame:
  assumes "individ \<noteq> father" and "individ \<noteq> mother"
    and "peform_pairing r1 r2 individ father mother pairing_type s = (Inr res, s')"
  shows "(\<forall>p. p \<noteq> individ \<longrightarrow> objs s' p = objs s p)
     \<and> (pairing_type = ''father_architecture'' \<longrightarrow>
          lists s' = lists s \<and>
          (\<exists>v. dicts s (data_processing (objs s father)) ''sentences_length'' = Some v \<and>
               dicts s' = (dicts s)(data_processing (objs s mother) :=
                  (dicts s (data_processing (objs s mother)))(''sentences_length'' \<mapsto> v))))
     \<and> (pairing_type = ''father_architecture_layers'' \<longrightarrow>
          dicts s' = dicts s \<and>
          (\<exists>c a. 1 \<le> c \<and> c < length (lists s (architecture (objs s father)))
               \<and> 1 \<le> a \<and> a < length (lists s (architecture (objs s mother)))
               \<and> lists s' = (lists s)(architecture (objs s father) :=
                    (lists s (architecture (objs s father)))
                      [c := lists s (architecture (objs s mother)) ! a])))
     \<and> (pairing_type = ''father_architecture_parameter'' \<longrightarrow>
          dicts s' = dicts s \<and>
          (\<exists>c a. 1 \<le> c \<and> c + 1 < length (lists s (architecture (objs s father)))
               \<and> 1 \<le> a \<and> a + 1 < length (lists s (architecture (objs s mother)))
               \<and> type (lists s (architecture (objs s father)) ! c) =
                   type (lists s (architecture (objs s mother)) ! a)
               \<and> lists s' = (lists s)(architecture (objs s father) :=
                    (lists s (architecture (objs s father)))
                      [c := lists s (architecture (objs s mother)) ! a])))
     \<and> (pairing_type = ''father_training'' \<longrightarrow> lists s' = lists s \<and> dicts s' = dicts s)
     \<and> (pairing_type = ''father_data_processing'' \<longrightarrow>
          dicts s' = dicts s \<and>
          lists s (architecture (objs s father)) \<noteq> [] \<and>
          lists s (architecture (objs s mother)) \<noteq> [] \<and>
          lists s' = (lists s)(architecture (objs s mother) :=
             (lists s (architecture (objs s mother)))
               [0 := lists s (architecture (objs s father)) ! 0]))
     \<and> (pairing_type \<notin> {''father_architecture'', ''father_architecture_layers'',
            ''father_architecture_parameter'', ''father_training'',
            ''father_data_processing''} \<longrightarrow> s' = s)"
proof -
  note r = assms(3)
  have fa: "lists s' = lists s \<and>
          (\<exists>v. dicts s (data_processing (objs s father)) ''sentences_length'' = Some v \<and>
               dicts s' = (dicts s)(data_processing (objs s mother) :=
                  (dicts s (data_processing (objs s mother)))(''sentences_length'' \<mapsto> v)))
          \<and> (\<forall>p. p \<noteq> individ \<longrightarrow> objs s' p = objs s p)"
    if "pairing_type = ''father_architecture''"
    using r that father_architecture_exact [OF assms(1), of mother s]
    by (auto simp: peform_pairing_def returning_Inr Let_def split: option.splits)
  have la: "dicts s' = dicts s \<and>
          (\<exists>c a. 1 \<le> c \<and> c < length (lists s (architecture (objs s father)))
               \<and> 1 \<le> a \<and> a < length (lists s (architecture (objs s mother)))
               \<and> lists s' = (lists s)(architecture (objs s father) :=
                    (lists s (architecture (objs s father)))
                      [c := lists s (architecture (objs s mother)) ! a]))
          \<and> (\<forall>p. p \<noteq> individ \<longrightarrow> objs s' p = objs s p)"
    if "pairing_type = ''father_architecture_layers''"
  proof -
    from r that obtain i where
      "father_architecture_layers_pairing r1 r2 individ father mother s = (Inr i, s')"
      by (auto simp: peform_pairing_def returning_Inr)
    from layers_result [OF assms(2) this] obtain c a where
      ca: "1 \<le> c" "c < length (lists s (architecture (objs s father)))"
          "1 \<le> a" "a < length (lists s (architecture (objs s mother)))"
      and s': "s' = s\<lparr>objs := (objs s)(individ := objs s father),
                    lists := (lists s)(architecture (objs s father) :=
                      (lists s (architecture (objs s father)))
                        [c := lists s (architecture (objs s mother)) ! a])\<rparr>"
      by blast
    have "dicts s' = dicts s" using s' by simp
    moreover have "lists s' = (lists s)(architecture (objs s father) :=
                      (lists s (architecture (objs s father)))
                        [c := lists s (architecture (objs s mother)) ! a])"
      using s' by simp
    moreover have "\<forall>p. p \<noteq> individ \<longrightarrow> objs s' p = objs s p" using s' by simp
    ultimately show ?thesis using ca by blast
  qed
  have pa: "dicts s' = dicts s \<and>
          (\<exists>c a. 1 \<le> c \<and> c + 1 < length (lists s (architecture (objs s father)))
               \<and> 1 \<le> a \<and> a + 1 < length (lists s (architecture (objs s mother)))
               \<and> type (lists s (architecture (objs s father)) ! c) =
                   type (lists s (architecture (objs s mother)) ! a)
               \<and> lists s' = (lists s)(architecture (objs s father) :=
                    (lists s (architecture (objs s father)))
                      [c := lists s (architecture (objs s mother)) ! a]))
          \<and> (\<forall>p. p \<noteq> individ \<longrightarrow> objs s' p = objs s p)"
    if "pairing_type = ''father_architecture_parameter''"
  proof -
    from r that obtain i where
      "father_architecture_parameter_pairing r1 individ father mother s = (Inr i, s')"
      by (auto simp: peform_pairing_def returning_Inr)
    from parameter_exact [OF assms(2) this] obtain c a where
      ca: "1 \<le> c" "c + 1 < length (lists s (architecture (objs s father)))"
          "1 \<le> a" "a + 1 < length (lists s (architecture (objs s mother)))"
          "type (lists s (architecture (objs s father)) ! c) =
             type (lists s (architecture (objs s mother)) ! a)"
      and s': "s' = s\<lparr>objs := (objs s)(individ := objs s father),
                    lists := (lists s)(architecture (objs s father) :=
                      (lists s (architecture (objs s father)))
                        [c := lists s (architecture (objs s mother)) ! a])\<rparr>"
      by blast
    have "dicts s' = dicts s" using s' by simp
    moreover have "lists s' = (lists s)(architecture (objs s father) :=
                      (lists s (architecture (objs s father)))
                        [c := lists s (architecture (objs s mother)) ! a])"
      using s' by simp
    moreover have "\<forall>p. p \<noteq> individ \<longrightarrow> objs s' p = objs s p" using s' by simp
    ultimately show ?thesis using ca by blast
  qed
  have tr: "lists s' = lists s \<and> dicts s' = dicts s
          \<and> (\<forall>p. p \<noteq> individ \<longrightarrow> objs s' p = objs s p)"
    if "pairing_type = ''father_training''"
  proof -
    from r that obtain i where
      "father_training_pairing individ father mother s = (Inr i, s')"
      by (auto simp: peform_pairing_def returning_Inr)
    from training_frame [OF this] show ?thesis by simp
  qed
  have dp: "dicts s' = dicts s \<and>
          lists s (architecture (objs s father)) \<noteq> [] \<and>
          lists s (architecture (objs s mother)) \<noteq> [] \<and>
          lists s' = (lists s)(architecture (objs s mother) :=
             (lists s (architecture (objs s mother)))
               [0 := lists s (architecture (objs s father)) ! 0])
          \<and> (\<forall>p. p \<noteq> individ \<longrightarrow> objs s' p = objs s p)"
    if "pairing_type = ''father_data_processing''"
    using r that data_processing_exact [OF assms(1), of mother s]
    by (auto simp: peform_pairing_def returning_Inr Let_def split: if_splits)
  have un: "s' = s"
    if "pairing_type \<notin> {''father_architecture'', ''father_architecture_layers'',
            ''father_architecture_parameter'', ''father_training'',
            ''father_data_processing''}"
    using r that by (simp add: peform_pairing_def py_return_def)
  have ob: "\<forall>p. p \<noteq> individ \<longrightarrow> objs s' p = objs s p"
  proof (cases "pairing_type = ''father_architecture''")
    case True
    from fa [OF True] show ?thesis by (elim conjE)
  next
    case n1: False
    show ?thesis
    proof (cases "pairing_type = ''father_architecture_layers''")
      case True
      from la [OF True] show ?thesis by (elim conjE)
    next
      case n2: False
      show ?thesis
      proof (cases "pairing_type = ''father_architecture_parameter''")
        case True
        from pa [OF True] show ?thesis by (elim conjE)
      next
        case n3: False
        show ?thesis
        proof (cases "pairing_type = ''father_training''")
          case True
          from tr [OF True] show ?thesis by (elim conjE)
        next
          case n4: False
          show ?thesis
          proof (cases "pairing_type = ''father_data_processing''")
            case True
            from dp [OF True] show ?thesis by (elim conjE)
          next
            case n5: False
            from n1 n2 n3 n4 n5 have "pairing_type \<notin> {''father_architecture'',
              ''father_architecture_layers'', ''father_architecture_parameter'',
              ''father_training'', ''father_data_processing''}"
              by simp
            from un [OF this] show ?thesis by simp
          qed
        qed
      qed
    qed
  qed
  have fa': "lists s' = lists s \<and>
          (\<exists>v. dicts s (data_processing (objs s father)) ''sentences_length'' = Some v \<and>
               dicts s' = (dicts s)(data_processing (objs s mother) :=
                  (dicts s (data_processing (objs s mother)))(''sentences_length'' \<mapsto> v)))"
    if "pairing_type = ''father_architecture''"
    using fa [OF that] by (elim conjE) (intro conjI)
  have la': "dicts s' = dicts s \<and>
          (\<exists>c a. 1 \<le> c \<and> c < length (lists s (architecture (objs s father)))
               \<and> 1 \<le> a \<and> a < length (lists s (architecture (objs s mother)))
               \<and> lists s' = (lists s)(architecture (objs s father) :=
                    (lists s (architecture (objs s father)))
                      [c := lists s (architecture (objs s mother)) ! a]))"
    if "pairing_type = ''father_architecture_layers''"
    using la [OF that] by (elim conjE) (intro conjI)
  have pa': "dicts s' = dicts s \<and>
          (\<exists>c a. 1 \<le> c \<and> c + 1 < length (lists s (architecture (objs s father)))
               \<and> 1 \<le> a \<and> a + 1 < length (lists s (architecture (objs s mother)))
               \<and> type (lists s (architecture (objs s father)) ! c) =
                   type (lists s (architecture (objs s mother)) ! a)
               \<and> lists s' = (lists s)(architecture (objs s father) :=
                    (lists s (architecture (objs s father)))
                      [c := lists s (architecture (objs s mother)) ! a]))"
    if "pairing_type = ''father_architecture_parameter''"
    using pa [OF that] by (elim conjE) (intro conjI)
  have tr': "lists s' = lists s \<and> dicts s' = dicts s"
    if "pairing_type = ''father_training''"
    using tr [OF that] by (elim conjE) (intro conjI)
  have dp': "dicts s' = dicts s \<and>
          lists s (architecture (objs s father)) \<noteq> [] \<and>
          lists s (architecture (objs s mother)) \<noteq> [] \<and>
          lists s' = (lists s)(architecture (objs s mother) :=
             (lists s (architecture (objs s mother)))
               [0 := lists s (architecture (objs s father)) ! 0])"
    if "pairing_type = ''father_data_processing''"
    using dp [OF that] by (elim conjE) (intro conjI)
  show ?thesis
    by ((rule ob | (rule impI, erule fa') | (rule impI, erule la') | (rule impI, erule pa')
        | (rule impI, erule tr') | (rule impI, erule dp') | (rule impI, erule un)
        | rule conjI)+)
qed

theorem peform_pairing_frame_witness:
  "(0::nat) \<noteq> 1 \<and> (0::nat) \<noteq> 2
   \<and> peform_pairing 0 1 0 1 2 ''father_architecture_layers'' (ex_store ex_father ex_mother)
       = (Inr (Some 0),
          snd (peform_pairing 0 1 0 1 2 ''father_architecture_layers''
                 (ex_store ex_father ex_mother)))
   \<and> objs (snd (peform_pairing 0 1 0 1 2 ''father_architecture_layers''
                 (ex_store ex_father ex_mother))) 1 = objs (ex_store ex_father ex_mother) 1
   \<and> objs (snd (peform_pairing 0 1 0 1 2 ''father_architecture_layers''
                 (ex_store ex_father ex_mother))) 2 = objs (ex_store ex_father ex_mother) 2
   \<and> dicts (snd (peform_pairing 0 1 0 1 2 ''father_architecture_layers''
                 (ex_store ex_father ex_mother))) = dicts (ex_store ex_father ex_mother)"
proof -
  have h1: "(0::nat) \<noteq> 1" and h2: "(0::nat) \<noteq> 2" by simp_all
  have "fst (peform_pairing 0 1 0 1 2 ''father_architecture_layers''
               (ex_store ex_father ex_mother)) = Inr (Some 0)"
    by (simp add: pairing_eval)
  then have e: "peform_pairing 0 1 0 1 2 ''father_architecture_layers''
        (ex_store ex_father ex_mother)
       = (Inr (Some 0),
          snd (peform_pairing 0 1 0 1 2 ''father_architecture_layers''
                 (ex_store ex_father ex_mother)))"
    by (simp add: prod_eq_iff)
  note t = peform_pairing_frame [OF h1 h2 e]
  from t have a: "\<forall>p. p \<noteq> 0 \<longrightarrow>
          objs (snd (peform_pairing 0 1 0 1 2 ''father_architecture_layers''
                 (ex_store ex_father ex_mother))) p = objs (ex_store ex_father ex_mother) p"
    by (rule conjunct1)
  from t have "''father_architecture_layers'' = ''father_architecture_layers'' \<longrightarrow>
      dicts (snd (peform_pairing 0 1 0 1 2 ''father_architecture_layers''
                 (ex_store ex_father ex_mother))) = dicts (ex_store ex_father ex_mother) \<and>
      (\<exists>c a. 1 \<le> c \<and> c < length (lists (ex_store ex_father ex_mother)
                (architecture (objs (ex_store ex_father ex_mother) 1)))
           \<and> 1 \<le> a \<and> a < length (lists (ex_store ex_father ex_mother)
                (architecture (objs (ex_store ex_father ex_mother) 2)))
           \<and> lists (snd (peform_pairing 0 1 0 1 2 ''father_architecture_layers''
                 (ex_store ex_father ex_mother))) =
              (lists (ex_store ex_father ex_mother))
                (architecture (objs (ex_store ex_father ex_mother) 1) :=
                  (lists (ex_store ex_father ex_mother)
                     (architecture (objs (ex_store ex_father ex_mother) 1)))
                  [c := lists (ex_store ex_father ex_mother)
                     (architecture (objs (ex_store ex_father ex_mother) 2)) ! a]))"
    by (elim conjE)
  then have b: "dicts (snd (peform_pairing 0 1 0 1 2 ''father_architecture_layers''
                 (ex_store ex_father ex_mother))) = dicts (ex_store ex_father ex_mother)"
    by (elim impE conjE) (rule refl)
  from a have a1: "objs (snd (peform_pairing 0 1 0 1 2 ''father_architecture_layers''
                 (ex_store ex_father ex_mother))) 1 = objs (ex_store ex_father ex_mother) 1"
    by simp
  from a have a2: "objs (snd (peform_pairing 0 1 0 1 2 ''father_architecture_layers''
                 (ex_store ex_father ex_mother))) 2 = objs (ex_store ex_father ex_mother) 2"
    by simp
  from h1 h2 e a1 a2 b show ?thesis by (intro conjI)
qed

text \<open>
  Claim C3.  The claim: in \<open>father_architecture_layers\<close> the mother-side index, drawn
  from \<open>[1, len(mother.architecture))\<close>, never selects mother's last gene, while the
  father-side index can select father's last position.  The first half fails: the
  range ends at \<open>len - 1\<close>, the last position.  With a mother of three genes the draw
  \<open>r2 = 1\<close> selects position 2, and mother's last gene lands in father's list.
\<close>

theorem layers_pairing_mother_last_counterexample:
  "choice 1 [1..<length ex_mother] = Inr (length ex_mother - 1)
   \<and> fst (peform_pairing 0 1 0 1 2 ''father_architecture_layers''
            (ex_store ex_father ex_mother)) = Inr (Some 0)
   \<and> lists (snd (peform_pairing 0 1 0 1 2 ''father_architecture_layers''
                   (ex_store ex_father ex_mother))) 10 ! 1 = last ex_mother"
  by (simp add: pairing_eval)

text \<open>
  Claim C3, amended.  For parents of at least two genes and a target other than the
  mother, both indices of \<open>father_architecture_layers\<close> are drawn from \<open>[1, len)\<close> of
  their own parent: whatever the draws, the call returns the target with father's
  attributes, and father's gene \<open>c\<close> replaced by mother's gene \<open>a\<close> for some
  \<open>1 \<le> c < len(father.architecture)\<close> and \<open>1 \<le> a < len(mother.architecture)\<close>.  Each
  range includes the last position: there are draws for which father's last gene is
  replaced by mother's last gene.
\<close>

theorem layers_pairing_index_ranges:
  assumes "individ \<noteq> mother"
    and "2 \<le> length (lists s (architecture (objs s father)))"
    and "2 \<le> length (lists s (architecture (objs s mother)))"
  shows "(\<exists>c a. 1 \<le> c \<and> c < length (lists s (architecture (objs s father)))
            \<and> 1 \<le> a \<and> a < length (lists s (architecture (objs s mother)))
            \<and> peform_pairing r1 r2 individ father mother ''father_architecture_layers'' s =
                (Inr (Some individ),
                 s\<lparr>objs := (objs s)(individ := objs s father),
                   lists := (lists s)(architecture (objs s father) :=
                     (lists s (architecture (objs s father)))
                       [c := lists s (architecture (objs s mother)) ! a])\<rparr>))
     \<and> peform_pairing (length (lists s (architecture (objs s father))) - 2)
           (length (lists s (architecture (objs s mother))) - 2)
           individ father mother ''father_architecture_layers'' s =
          (Inr (Some individ),
           s\<lparr>objs := (objs s)(individ := objs s father),
             lists := (lists s)(architecture (objs s father) :=
               (lists s (architecture (objs s father)))
                 [length (lists s (architecture (objs s father))) - 1 :=
                    lists s (architecture (objs s mother)) !
                      (length (lists s (architecture (objs s mother))) - 1)])\<rparr>)"
proof (rule conjI)
  let ?fl = "lists s (architecture (objs s father))"
  let ?ml = "lists s (architecture (objs s mother))"
  have pp: "peform_pairing q1 q2 individ father mother ''father_architecture_layers'' s =
      returning (father_architecture_layers_pairing q1 q2 individ father mother) s" for q1 q2
    by (simp add: peform_pairing_def)
  from choice_range [OF assms(2)] obtain c where
    c: "choice r1 [1..<length ?fl] = Inr c" "1 \<le> c" "c < length ?fl" by blast
  from choice_range [OF assms(3)] obtain a where
    a: "choice r2 [1..<length ?ml] = Inr a" "1 \<le> a" "a < length ?ml" by blast
  have "peform_pairing r1 r2 individ father mother ''father_architecture_layers'' s =
                (Inr (Some individ),
                 s\<lparr>objs := (objs s)(individ := objs s father),
                   lists := (lists s)(architecture (objs s father) := ?fl[c := ?ml ! a])\<rparr>)"
    by (simp add: pp returning_def py_bind_def py_return_def layers_exact [OF assms(1) c(1) a(1)])
  with c(2,3) a(2,3) show "\<exists>c a. 1 \<le> c \<and> c < length ?fl \<and> 1 \<le> a \<and> a < length ?ml
            \<and> peform_pairing r1 r2 individ father mother ''father_architecture_layers'' s =
                (Inr (Some individ),
                 s\<lparr>objs := (objs s)(individ := objs s father),
                   lists := (lists s)(architecture (objs s father) := ?fl[c := ?ml ! a])\<rparr>)"
    by - (rule exI [of _ c], rule exI [of _ a], (intro conjI; assumption))
  have last_draw: "choice (n - 2) [1..<n] = Inr (n - 1)" if "2 \<le> n" for n :: nat
  proof -
    from that have "1 \<le> n - 1" and "n - 1 < n" by arith+
    then have "choice (n - 1 - 1) [1..<n] = Inr (n - 1)" by (rule choice_reach)
    moreover have "n - 1 - 1 = n - 2" by arith
    ultimately show ?thesis by (simp only:)
  qed
  note cl = last_draw [OF assms(2)] and al = last_draw [OF assms(3)]
  show "peform_pairing (length ?fl - 2) (length ?ml - 2)
           individ father mother ''father_architecture_layers'' s =
          (Inr (Some individ),
           s\<lparr>objs := (objs s)(individ := objs s father),
             lists := (lists s)(architecture (objs s father) :=
               ?fl[length ?fl - 1 := ?ml ! (length ?ml - 1)])\<rparr>)"
    by (simp add: pp returning_def py_bind_def py_return_def layers_exact [OF assms(1) cl al])
qed

theorem layers_pairing_index_ranges_witness:
  "(0::nat) \<noteq> 2
   \<and> 2 \<le> length (lists (ex_store ex_father ex_mother)
                (architecture (objs (ex_store ex_father ex_mother) 1)))
   \<and> 2 \<le> length (lists (ex_store ex_father ex_mother)
                (architecture (objs (ex_store ex_father ex_mother) 2)))
   \<and> peform_pairing 1 1 0 1 2 ''father_architecture_layers'' (ex_store ex_father ex_mother) =
       (Inr (Some 0),
        (ex_store ex_father ex_mother)
          \<lparr>objs := (objs (ex_store ex_father ex_mother))
                     (0 := objs (ex_store ex_father ex_mother) 1),
           lists := (lists (ex_store ex_father ex_mother))
                     (10 := [ex_layer ''embedding'' 1, ex_layer ''lstm'' 1,
                             ex_layer ''dense'' 2])\<rparr>)"
proof -
  have h1: "(0::nat) \<noteq> 2" by simp
  have h2: "2 \<le> length (lists (ex_store ex_father ex_mother)
                (architecture (objs (ex_store ex_father ex_mother) 1)))"
    by (simp add: ex_defs)
  have h3: "2 \<le> length (lists (ex_store ex_father ex_mother)
                (architecture (objs (ex_store ex_father ex_mother) 2)))"
    by (simp add: ex_defs)
  have l: "lists (ex_store ex_father ex_mother)
             (architecture (objs (ex_store ex_father ex_mother) 1)) = ex_father"
      "lists (ex_store ex_father ex_mother)
             (architecture (objs (ex_store ex_father ex_mother) 2)) = ex_mother"
      "architecture (objs (ex_store ex_father ex_mother) 1) = 10"
      "lists (ex_store ex_father ex_mother) 10 = ex_father"
      "lists (ex_store ex_father ex_mother) 20 = ex_mother"
      "architecture (objs (ex_store ex_father ex_mother) 2) = 20"
    by (simp_all add: ex_store_def)
  have n: "length ex_father - 2 = 1" "length ex_mother - 2 = 1"
      "length ex_father - 1 = 2" "length ex_mother - 1 = 2"
    by (simp_all add: ex_father_def ex_mother_def)
  have u: "ex_father[2 := ex_mother ! 2] =
      [ex_layer ''embedding'' 1, ex_layer ''lstm'' 1, ex_layer ''dense'' 2]"
    by (simp add: ex_father_def ex_mother_def)
  from layers_pairing_index_ranges [OF h1 h2 h3, THEN conjunct2]
  have "peform_pairing 1 1 0 1 2 ''father_architecture_layers'' (ex_store ex_father ex_mother) =
       (Inr (Some 0),
        (ex_store ex_father ex_mother)
          \<lparr>objs := (objs (ex_store ex_father ex_mother))
                     (0 := objs (ex_store ex_father ex_mother) 1),
           lists := (lists (ex_store ex_father ex_mother))
                     (10 := [ex_layer ''embedding'' 1, ex_layer ''lstm'' 1,
                             ex_layer ''dense'' 2])\<rparr>)"
    by (simp only: l n u)
  with h1 h2 h3 show ?thesis by (intro conjI)
qed

text \<open>
  Claim C4.  A pairing type outside the five recognised tags makes \<open>peform_pairing\<close>
  return \<open>None\<close>: no exception is raised and the store is left as it was, whatever
  the individual, the father and the mother are.
\<close>

theorem peform_pairing_unrecognized:
  assumes "pairing_type \<notin> {''father_architecture'', ''father_architecture_layers'',
      ''father_architecture_parameter'', ''father_training'', ''father_data_processing''}"
  shows "peform_pairing r1 r2 individ father mother pairing_type s = (Inr None, s)"
  using assms by (simp add: peform_pairing_def py_return_def)

theorem peform_pairing_unrecognized_witness:
  "''father_mutation'' \<notin> {''father_architecture'', ''father_architecture_layers'',
      ''father_architecture_parameter'', ''father_training'', ''father_data_processing''}
   \<and> peform_pairing 0 0 0 1 2 ''father_mutation''
         \<lparr>objs = (\<lambda>_. \<lparr>architecture = 0, training_parameters = 0, data_processing = 0\<rparr>),
          lists = (\<lambda>_. []), dicts = (\<lambda>_. Map.empty)\<rparr>
       = (Inr None,
         \<lparr>objs = (\<lambda>_. \<lparr>architecture = 0, training_parameters = 0, data_processing = 0\<rparr>),
          lists = (\<lambda>_. []), dicts = (\<lambda>_. Map.empty)\<rparr>)"
proof -
  have h: "''father_mutation'' \<notin> {''father_architecture'', ''father_architecture_layers'',
      ''father_architecture_parameter'', ''father_training'', ''father_data_processing''}"
    by simp
  show ?thesis
    by (rule conjI [OF h peform_pairing_unrecognized [OF h]])
qed

text \<open>
  Claim C6.  The \<open>father_architecture\<close> strategy, for a target other than the father,
  a father whose data processing has \<open>sentences_length\<close>, and a mother whose two
  dictionaries are distinct objects: the call returns the target; its architecture is
  father's, its training parameters are mother's, and its data processing is mother's
  with \<open>sentences_length\<close> set to father's value, which is also the value father's own
  data processing holds after the call.
\<close>

theorem father_architecture_child:
  assumes "individ \<noteq> father"
    and "dicts s (data_processing (objs s father)) ''sentences_length'' = Some v"
    and "training_parameters (objs s mother) \<noteq> data_processing (objs s mother)"
  shows "\<exists>s'. peform_pairing r1 r2 individ father mother ''father_architecture'' s =
              (Inr (Some individ), s')
     \<and> lists s' (architecture (objs s' individ)) = lists s (architecture (objs s father))
     \<and> dicts s' (training_parameters (objs s' individ)) =
         dicts s (training_parameters (objs s mother))
     \<and> dicts s' (data_processing (objs s' individ)) =
         (dicts s (data_processing (objs s mother)))(''sentences_length'' \<mapsto> v)
     \<and> dicts s' (data_processing (objs s' father)) ''sentences_length'' = Some v"
  using assms father_architecture_exact [OF assms(1), of mother s]
  by (simp add: peform_pairing_def returning_def py_bind_def py_return_def Let_def)

theorem father_architecture_child_witness:
  "(0::nat) \<noteq> 1
   \<and> dicts (ex_store ex_father ex_mother)
        (data_processing (objs (ex_store ex_father ex_mother) 1)) ''sentences_length''
       = Some (IntV 10)
   \<and> training_parameters (objs (ex_store ex_father ex_mother) 2) \<noteq>
       data_processing (objs (ex_store ex_father ex_mother) 2)
   \<and> (\<exists>s'. peform_pairing 0 0 0 1 2 ''father_architecture'' (ex_store ex_father ex_mother) =
              (Inr (Some 0), s')
        \<and> lists s' (architecture (objs s' 0)) = ex_father
        \<and> dicts s' (training_parameters (objs s' 0)) =
            [''epochs'' \<mapsto> IntV 7, ''batchs'' \<mapsto> IntV 8]
        \<and> dicts s' (data_processing (objs s' 0)) ''sentences_length'' = Some (IntV 10)
        \<and> dicts s' (data_processing (objs s' 0)) ''classes'' = Some (IntV 2))"
proof -
  have h1: "(0::nat) \<noteq> 1" by simp
  have h2: "dicts (ex_store ex_father ex_mother)
        (data_processing (objs (ex_store ex_father ex_mother) 1)) ''sentences_length''
       = Some (IntV 10)"
    by (simp add: ex_store_def)
  have h3: "training_parameters (objs (ex_store ex_father ex_mother) 2) \<noteq>
       data_processing (objs (ex_store ex_father ex_mother) 2)"
    by (simp add: ex_store_def)
  from father_architecture_child [OF h1 h2 h3, of 0 0] obtain s' where
    r: "peform_pairing 0 0 0 1 2 ''father_architecture'' (ex_store ex_father ex_mother) =
              (Inr (Some 0), s')"
    and a: "lists s' (architecture (objs s' 0)) =
       lists (ex_store ex_father ex_mother) (architecture (objs (ex_store ex_father ex_mother) 1))"
    and t: "dicts s' (training_parameters (objs s' 0)) =
         dicts (ex_store ex_father ex_mother)
           (training_parameters (objs (ex_store ex_father ex_mother) 2))"
    and d: "dicts s' (data_processing (objs s' 0)) =
         (dicts (ex_store ex_father ex_mother)
           (data_processing (objs (ex_store ex_father ex_mother) 2)))
           (''sentences_length'' \<mapsto> IntV 10)"
    by blast
  have a': "lists s' (architecture (objs s' 0)) = ex_father"
    using a by (simp add: ex_store_def)
  have t': "dicts s' (training_parameters (objs s' 0)) =
            [''epochs'' \<mapsto> IntV 7, ''batchs'' \<mapsto> IntV 8]"
    using t by (simp add: ex_store_def)
  have d': "dicts s' (data_processing (objs s' 0)) ''sentences_length'' = Some (IntV 10)"
    using d by (simp add: ex_store_def)
  have d'': "dicts s' (data_processing (objs s' 0)) ''classes'' = Some (IntV 2)"
    using d by (simp add: ex_store_def)
  from h1 h2 h3 r a' t' d' d'' show ?thesis by (intro conjI exI [of _ s'])
qed

section \<open>Properties of the genotype factory\<close>

text \<open>
  The two recognised data types give the text and the image individual in both copies
  of the factory.
\<close>

lemma cradle_recognized:
  "cradle epochs ''text'' task_type parents freeze kwargs =
     Inr (IndividText \<lparr>arg_stage = epochs, arg_task_type = task_type, arg_parents = parents,
                       arg_freeze = freeze, arg_kwargs = kwargs\<rparr>)"
  "cradle epochs ''image'' task_type parents freeze kwargs =
     Inr (IndividImage \<lparr>arg_stage = epochs, arg_task_type = task_type, arg_parents = parents,
                        arg_freeze = freeze, arg_kwargs = kwargs\<rparr>)"
  "architecture_interface_cradle stage ''text'' task_type parents freeze kwargs =
     Inr (Some (IndividText \<lparr>arg_stage = stage, arg_task_type = task_type,
                             arg_parents = parents, arg_freeze = freeze, arg_kwargs = kwargs\<rparr>))"
  "architecture_interface_cradle stage ''image'' task_type parents freeze kwargs =
     Inr (Some (IndividImage \<lparr>arg_stage = stage, arg_task_type = task_type,
                              arg_parents = parents, arg_freeze = freeze, arg_kwargs = kwargs\<rparr>))"
  by (simp_all add: cradle_def architecture_interface_cradle_def)

text \<open>
  Claim C5.  The claim: for a data type other than \<open>text\<close> and \<open>image\<close> the factory
  fails with a ValueError whose message names the two allowed values.  The \<open>cradle\<close> of
  \<open>cradle.py\<close> does; the \<open>cradle\<close> of \<open>architecture_interface.py\<close> has no \<open>else\<close> branch
  and returns \<open>None\<close> without raising.  The theorem states both, for every such data
  type.
\<close>

theorem cradle_unrecognized_data_type:
  assumes "data_type \<notin> {''text'', ''image''}"
  shows \<open>architecture_interface_cradle stage data_type task_type parents freeze kwargs
            = Inr None
     \<and> cradle epochs data_type task_type parents freeze kwargs
            = Inl (ValueError
                ''Incorrect "data_type" argument.Available values: "text", "image"'')\<close>
  using assms by (simp add: architecture_interface_cradle_def cradle_def)

theorem cradle_unrecognized_data_type_witness:
  \<open>''audio'' \<notin> {''text'', ''image''}
     \<and> architecture_interface_cradle 1 ''audio'' ''classification'' None None [] = Inr None
     \<and> cradle 1 ''audio'' ''classification'' None None []
            = Inl (ValueError
                ''Incorrect "data_type" argument.Available values: "text", "image"'')\<close>
proof -
  have h: "''audio'' \<notin> {''text'', ''image''}" by simp
  show ?thesis
    by (rule conjI [OF h cradle_unrecognized_data_type [OF h]])
qed

section \<open>Properties of the evaluator\<close>

lemma fit_loop_append:
  "fit_loop cb self network x y pre out w0 = (Inr out1, w1) \<Longrightarrow>
   fit_loop cb self network x y (pre @ rest) out w0 = fit_loop cb self network x y rest out1 w1"
proof (induction pre arbitrary: out w0)
  case Nil
  then show ?case by (simp add: py_return_def)
next
  case (Cons f pre)
  obtain train test where f: "f = (train, test)" by (cases f)
  from Cons.prems show ?case
    unfolding f
    by (auto simp: py_bind_def py_try_def py_raise_def Cons.IH
             split: prod.splits sum.splits)
qed

lemma fit_loop_fold_raises:
  "fit_fold cb self network x y train test w1 = (Inl e, w2) \<Longrightarrow>
   fit_loop cb self network x y ((train, test) # post) out w1 =
     (Inl (ArithmeticError ''Tensor could not be compiled''), w2)"
  by (simp add: py_bind_def py_try_def py_raise_def)

lemma fit_generator_loop_append:
  "fit_generator_loop cb self network pre out w0 = (Inr out1, w1) \<Longrightarrow>
   fit_generator_loop cb self network (pre @ rest) out w0 =
     fit_generator_loop cb self network rest out1 w1"
proof (induction pre arbitrary: out w0)
  case Nil
  then show ?case by (simp add: py_return_def)
next
  case (Cons f pre)
  obtain train test where f: "f = (train, test)" by (cases f)
  from Cons.prems show ?case
    unfolding f
    by (auto simp: py_bind_def Cons.IH split: prod.splits sum.splits)
qed

lemma fit_generator_loop_fold_raises:
  "fit_generator_fold cb self network train test w1 = (Inl e, w2) \<Longrightarrow>
   fit_generator_loop cb self network ((train, test) # post) out w1 = (Inl e, w2)"
  by (simp add: py_bind_def)

lemma auc_loop_areas:
  assumes zero: "auc cb (replicate (length real_out) 0) (replicate (length predicted_out) 0) = Inr 0"
    and ok: "\<forall>i \<in> set cs. \<forall>f t. class_curve cb real_out predicted_out i = Inr (f, t)
                \<longrightarrow> auc cb f t = Inr (area i)"
    and failed: "\<forall>i \<in> set cs. \<forall>e. class_curve cb real_out predicted_out i = Inl e
                \<longrightarrow> area i = 0"
  shows "auc_loop cb real_out predicted_out cs roc_auc = Inr (roc_auc @ map area cs)"
  using ok failed
proof (induction cs arbitrary: roc_auc)
  case Nil
  then show ?case by simp
next
  case (Cons i cs)
  show ?case
  proof (cases "class_curve cb real_out predicted_out i")
    case (Inl e)
    with Cons.prems have "area i = 0" by simp
    with Inl zero Cons show ?thesis by simp
  next
    case (Inr c)
    obtain f t where c: "c = (f, t)" by (cases c)
    with Inr Cons.prems have "auc cb f t = Inr (area i)" by simp
    with Inr c Cons show ?thesis by simp
  qed
qed

text \<open>
  The example evaluator with two folds: the first fold trains, the second fails at
  graph construction.
\<close>

lemma ex_process_data: "process_data ex_collaborators (self_x (ex_self 2)) (self_y (ex_self 2)) ex_network
     (self_create_tokens (ex_self 2)) 0 = (Inr ([7, 8], [[1, 0], [0, 1]]), 0)"
  by (simp add: ex_self_def ex_collaborators_def py_return_def)

lemma ex_fit_folds: "fit_kfold_generator ex_collaborators (ex_self 2) [[1, 0], [0, 1]] = Inr ([([1], [0])] @ ([0], [1]) # [])"
  by (simp add: fit_kfold_generator_def ex_self_def ex_collaborators_def argmax_def argmax_row_def upt_conv_Cons)

lemma ex_fit_first_fold: "fit_loop ex_collaborators (ex_self 2) ex_network [7, 8] [[1, 0], [0, 1]] [([1], [0])] ([], []) 0
   = (Inr ([[1, 0]], [[1, 0]]), 1)"
  by (simp add: fit_fold_def py_return_def py_bind_def py_try_def py_lift_def py_raise_def
     take_rows_def getitem_def ex_self_def ex_collaborators_def ex_network_def)

lemma ex_fit_second_fold: "fit_fold ex_collaborators (ex_self 2) ex_network [7, 8] [[1, 0], [0, 1]] [0] [1] 1
   = (Inl (Exception ''graph''), 1)"
  by (simp add: fit_fold_def py_return_def py_bind_def py_try_def py_lift_def py_raise_def
     take_rows_def getitem_def ex_self_def ex_collaborators_def ex_network_def)

lemma ex_fit_generator_folds: "fit_generator_kfold_generator ex_collaborators (ex_self 2) = Inr ([([1], [0])] @ ([0], [1]) # [])"
  by (simp add: fit_generator_kfold_generator_def ex_self_def ex_collaborators_def upt_conv_Cons)

lemma ex_fit_generator_first_fold: "fit_generator_loop ex_collaborators (ex_self 2) ex_network [([1], [0])] ([], []) 0
   = (Inr ([[1, 0]], [[1, 0]]), 1)"
  by (simp add: fit_generator_fold_def py_return_def py_bind_def py_try_def py_lift_def py_raise_def
     take_rows_def getitem_def ex_self_def ex_collaborators_def ex_network_def)

lemma ex_fit_generator_second_fold: "fit_generator_fold ex_collaborators (ex_self 2) ex_network [0] [1] 1
   = (Inl (Exception ''graph''), 1)"
  by (simp add: fit_generator_fold_def py_return_def py_bind_def py_try_def py_lift_def py_raise_def
     take_rows_def getitem_def ex_self_def ex_collaborators_def ex_network_def)

lemma ex_class_curve_0: "class_curve ex_collaborators [[1, 0], [1, 0]] [[1, 0], [1, 0]] 0 = Inr ([0, 0, 1], [0, 1, 1])"
  by (simp add: class_curve_def column_def ex_collaborators_def ex_roc_curve_def)

lemma ex_class_curve_1: "class_curve ex_collaborators [[1, 0], [1, 0]] [[1, 0], [1, 0]] (Suc 0) = Inl (ValueError ''No positive samples in y_true'')"
  by (simp add: class_curve_def column_def ex_collaborators_def ex_roc_curve_def)

text \<open>
  Claim C7.  An evaluator constructed with \<open>kfold_number = 1\<close> has, in \<open>fit\<close> and in
  \<open>fit_generator\<close>, exactly one fold, whose train and test index lists are both the
  full range \<open>0 .. len(x) - 1\<close>; each function runs its loop on that one fold.
\<close>

theorem kfold_one_single_fold:
  assumes "Evaluator_init x y 1 device generator = Inr self"
  shows "fit_kfold_generator cb self y' = Inr [([0..<length x], [0..<length x])]
     \<and> fit_generator_kfold_generator cb self = Inr [([0..<length x], [0..<length x])]
     \<and> fit cb self network =
         py_bind (process_data cb x y network (self_create_tokens self)) (\<lambda>(xp, yp).
         py_bind (fit_loop cb self network xp yp [([0..<length x], [0..<length x])] ([], []))
           (\<lambda>out. py_lift (fitness_result cb self network out)))
     \<and> fit_generator cb self network =
         py_bind (fit_generator_loop cb self network [([0..<length x], [0..<length x])] ([], []))
           (\<lambda>out. py_lift (fitness_result cb self network out))"
proof -
  from assms have k: "self_kfold_number self = 1" and x: "self_x self = x" and y: "self_y self = y"
    by (auto simp: Evaluator_init_def Let_def split: if_splits)
  have a: "fit_kfold_generator cb self y' = Inr [([0..<length x], [0..<length x])]" for y'
    by (simp add: fit_kfold_generator_def k x)
  have b: "fit_generator_kfold_generator cb self = Inr [([0..<length x], [0..<length x])]"
    by (simp add: fit_generator_kfold_generator_def k x)
  have c: "fit cb self network =
         py_bind (process_data cb x y network (self_create_tokens self)) (\<lambda>(xp, yp).
         py_bind (fit_loop cb self network xp yp [([0..<length x], [0..<length x])] ([], []))
           (\<lambda>out. py_lift (fitness_result cb self network out)))"
    unfolding fit_def x y a
    by (simp add: py_bind_def py_lift_def)
  have d: "fit_generator cb self network =
         py_bind (fit_generator_loop cb self network [([0..<length x], [0..<length x])] ([], []))
           (\<lambda>out. py_lift (fitness_result cb self network out))"
    unfolding fit_generator_def b
    by (simp add: py_bind_def py_lift_def)
  from a b c d show ?thesis by blast
qed

theorem kfold_one_single_fold_witness:
  "Evaluator_init [7, 8] [[1, 0], [0, 1]] 1 ''cpu'' False = Inr (ex_self 1)
   \<and> fit_kfold_generator ex_collaborators (ex_self 1) [[1, 0], [0, 1]] =
        Inr [([0..<length [7::nat, 8]], [0..<length [7::nat, 8]])]
   \<and> fit_generator_kfold_generator ex_collaborators (ex_self 1) =
        Inr [([0..<length [7::nat, 8]], [0..<length [7::nat, 8]])]"
proof -
  have h: "Evaluator_init [7, 8] [[1, 0], [0, 1]] 1 ''cpu'' False = Inr (ex_self 1)"
    by (simp add: Evaluator_init_def ex_self_def)
  note t = kfold_one_single_fold [OF h, of ex_collaborators "[[1, 0], [0, 1]]"]
  from t have a: "fit_kfold_generator ex_collaborators (ex_self 1) [[1, 0], [0, 1]] =
        Inr [([0..<length [7::nat, 8]], [0..<length [7::nat, 8]])]"
    by (rule conjunct1)
  from t [THEN conjunct2] have b: "fit_generator_kfold_generator ex_collaborators (ex_self 1) =
        Inr [([0..<length [7::nat, 8]], [0..<length [7::nat, 8]])]"
    by (rule conjunct1)
  from h a b show ?thesis by (intro conjI)
qed

text \<open>
  Claim C8.  If the folds before some fold have been evaluated and that fold raises
  (in graph construction, compilation, fitting or prediction), the whole evaluation
  fails there: \<open>fit\<close> raises the one error
  \<open>ArithmeticError('Tensor could not be compiled')\<close>, \<open>fit_generator\<close>, which has no
  handler, raises the exception of the fold.  In both the state of the collaborators
  is the one the failing step left: the fold is not run again, the later folds are
  not run, and no fitness value is returned.
\<close>

theorem fold_failure_fails_evaluation:
  "(process_data cb (self_x self) (self_y self) network (self_create_tokens self) w
       = (Inr (x, y), w0) \<longrightarrow>
    fit_kfold_generator cb self y = Inr (pre @ (train, test) # post) \<longrightarrow>
    fit_loop cb self network x y pre ([], []) w0 = (Inr out, w1) \<longrightarrow>
    fit_fold cb self network x y train test w1 = (Inl e, w2) \<longrightarrow>
    fit cb self network w = (Inl (ArithmeticError ''Tensor could not be compiled''), w2))
   \<and>
   (fit_generator_kfold_generator cb self = Inr (pre' @ (train', test') # post') \<longrightarrow>
    fit_generator_loop cb self network pre' ([], []) w = (Inr out', w1') \<longrightarrow>
    fit_generator_fold cb self network train' test' w1' = (Inl e', w2') \<longrightarrow>
    fit_generator cb self network w = (Inl e', w2'))"
proof (intro conjI impI)
  assume p: "process_data cb (self_x self) (self_y self) network (self_create_tokens self) w
       = (Inr (x, y), w0)"
    and k: "fit_kfold_generator cb self y = Inr (pre @ (train, test) # post)"
    and l: "fit_loop cb self network x y pre ([], []) w0 = (Inr out, w1)"
    and f: "fit_fold cb self network x y train test w1 = (Inl e, w2)"
  have "fit_loop cb self network x y (pre @ (train, test) # post) ([], []) w0 =
          (Inl (ArithmeticError ''Tensor could not be compiled''), w2)"
    by (simp only: fit_loop_append [OF l] fit_loop_fold_raises [OF f])
  then show "fit cb self network w =
      (Inl (ArithmeticError ''Tensor could not be compiled''), w2)"
    by (simp add: fit_def py_bind_def py_lift_def p k)
next
  assume k: "fit_generator_kfold_generator cb self = Inr (pre' @ (train', test') # post')"
    and l: "fit_generator_loop cb self network pre' ([], []) w = (Inr out', w1')"
    and f: "fit_generator_fold cb self network train' test' w1' = (Inl e', w2')"
  have "fit_generator_loop cb self network (pre' @ (train', test') # post') ([], []) w =
          (Inl e', w2')"
    by (simp only: fit_generator_loop_append [OF l] fit_generator_loop_fold_raises [OF f])
  then show "fit_generator cb self network w = (Inl e', w2')"
    by (simp add: fit_generator_def py_bind_def py_lift_def k)
qed

theorem fold_failure_fails_evaluation_witness:
  "process_data ex_collaborators (self_x (ex_self 2)) (self_y (ex_self 2)) ex_network
       (self_create_tokens (ex_self 2)) 0 = (Inr ([7, 8], [[1, 0], [0, 1]]), 0)
   \<and> fit_kfold_generator ex_collaborators (ex_self 2) [[1, 0], [0, 1]] =
       Inr ([([1], [0])] @ ([0], [1]) # [])
   \<and> fit_loop ex_collaborators (ex_self 2) ex_network [7, 8] [[1, 0], [0, 1]]
        [([1], [0])] ([], []) 0 = (Inr ([[1, 0]], [[1, 0]]), 1)
   \<and> fit_fold ex_collaborators (ex_self 2) ex_network [7, 8] [[1, 0], [0, 1]] [0] [1] 1 =
       (Inl (Exception ''graph''), 1)
   \<and> fit ex_collaborators (ex_self 2) ex_network 0 =
       (Inl (ArithmeticError ''Tensor could not be compiled''), 1)
   \<and> fit_generator_kfold_generator ex_collaborators (ex_self 2) =
       Inr ([([1], [0])] @ ([0], [1]) # [])
   \<and> fit_generator_loop ex_collaborators (ex_self 2) ex_network [([1], [0])] ([], []) 0 =
       (Inr ([[1, 0]], [[1, 0]]), 1)
   \<and> fit_generator_fold ex_collaborators (ex_self 2) ex_network [0] [1] 1 =
       (Inl (Exception ''graph''), 1)
   \<and> fit_generator ex_collaborators (ex_self 2) ex_network 0 = (Inl (Exception ''graph''), 1)"
proof -
  note a = fold_failure_fails_evaluation
    [THEN conjunct1, rule_format, OF ex_process_data ex_fit_folds ex_fit_first_fold ex_fit_second_fold]
  note b = fold_failure_fails_evaluation
    [THEN conjunct2, rule_format, OF ex_fit_generator_folds ex_fit_generator_first_fold ex_fit_generator_second_fold]
  from ex_process_data ex_fit_folds ex_fit_first_fold ex_fit_second_fold a ex_fit_generator_folds ex_fit_generator_first_fold ex_fit_generator_second_fold b show ?thesis by (intro conjI)
qed

text \<open>
  Claim C9.  The AUC reduction over \<open>classes\<close> class indices.  Let \<open>area i\<close> be the area
  \<open>auc\<close> gives for the curve of class \<open>i\<close> when the curve is computed, and 0 when its
  computation raises.  Provided \<open>auc\<close> gives 0 for the curve of zeros that the handler
  substitutes, the reduction does not stop at a failed class and returns the sum of
  the areas of all classes.
\<close>

theorem test_classification_AUC:
  assumes "self_fitness_measure self = ''AUC''"
    and "auc cb (replicate (length real_out) 0) (replicate (length predicted_out) 0) = Inr 0"
    and "\<forall>i < nat classes. \<forall>f t. class_curve cb real_out predicted_out i = Inr (f, t)
            \<longrightarrow> auc cb f t = Inr (area i)"
    and "\<forall>i < nat classes. \<forall>e. class_curve cb real_out predicted_out i = Inl e
            \<longrightarrow> area i = 0"
  shows "test_classification cb self predicted_out real_out classes =
           Inr (\<Sum>i < nat classes. area i)"
proof -
  have "auc_loop cb real_out predicted_out [0..<nat classes] [] =
          Inr ([] @ map area [0..<nat classes])"
    using assms(2-4) by (intro auc_loop_areas) auto
  moreover have "sum_list (map area [0..<nat classes]) = (\<Sum>i < nat classes. area i)"
    by (simp add: interv_sum_list_conv_sum_set_nat atLeast0LessThan)
  ultimately show ?thesis
    using assms(1) by (simp add: test_classification_def)
qed

theorem test_classification_AUC_witness:
  "self_fitness_measure (ex_self 1) = ''AUC''
   \<and> auc ex_collaborators (replicate (length [[1, 0], [1, 0::real]]) 0)
         (replicate (length [[1, 0], [1, 0::real]]) 0) = Inr 0
   \<and> class_curve ex_collaborators [[1, 0], [1, 0]] [[1, 0], [1, 0]] 0
        = Inr ([0, 0, 1], [0, 1, 1])
   \<and> auc ex_collaborators [0, 0, 1] [0, 1, 1] = Inr 1
   \<and> class_curve ex_collaborators [[1, 0], [1, 0]] [[1, 0], [1, 0]] 1
        = Inl (ValueError ''No positive samples in y_true'')
   \<and> test_classification ex_collaborators (ex_self 1) [[1, 0], [1, 0]] [[1, 0], [1, 0]] 2
        = Inr 1"
proof -
  let ?area = "\<lambda>i::nat. if i = 0 then 1 else (0::real)"
  have h1: "self_fitness_measure (ex_self 1) = ''AUC''"
    by (simp add: ex_self_def)
  have h2: "auc ex_collaborators (replicate (length [[1, 0], [1, 0::real]]) 0)
         (replicate (length [[1, 0], [1, 0::real]]) 0) = Inr 0"
    by (simp add: ex_collaborators_def ex_auc_def numeral_2_eq_2)
  have a0: "auc ex_collaborators [0, 0, 1] [0, 1, 1] = Inr 1"
    by (simp add: ex_collaborators_def ex_auc_def)
  have c1: "class_curve ex_collaborators [[1, 0], [1, 0]] [[1, 0], [1, 0]] 1
        = Inl (ValueError ''No positive samples in y_true'')"
    using ex_class_curve_1 by simp
  have h3: "\<forall>i < nat 2. \<forall>f t.
      class_curve ex_collaborators [[1, 0], [1, 0]] [[1, 0], [1, 0]] i = Inr (f, t)
        \<longrightarrow> auc ex_collaborators f t = Inr (?area i)"
  proof (intro allI impI)
    fix i f t
    assume i: "i < nat 2"
      and c: "class_curve ex_collaborators [[1, 0], [1, 0]] [[1, 0], [1, 0]] i = Inr (f, t)"
    from i have "i = 0 \<or> i = Suc 0" by auto
    then show "auc ex_collaborators f t = Inr (?area i)"
    proof
      assume "i = 0"
      with c ex_class_curve_0 a0 show ?thesis by simp
    next
      assume "i = Suc 0"
      with c ex_class_curve_1 show ?thesis by simp
    qed
  qed
  have h4: "\<forall>i < nat 2. \<forall>e.
      class_curve ex_collaborators [[1, 0], [1, 0]] [[1, 0], [1, 0]] i = Inl e
        \<longrightarrow> ?area i = 0"
  proof (intro allI impI)
    fix i e
    assume i: "i < nat 2"
      and c: "class_curve ex_collaborators [[1, 0], [1, 0]] [[1, 0], [1, 0]] i = Inl e"
    from i have "i = 0 \<or> i = Suc 0" by auto
    then show "?area i = 0"
    proof
      assume "i = 0"
      with c ex_class_curve_0 show ?thesis by simp
    next
      assume "i = Suc 0"
      then show ?thesis by simp
    qed
  qed
  have s: "(\<Sum>i < nat 2. ?area i) = 1"
    by (simp add: numeral_2_eq_2)
  from test_classification_AUC [of "ex_self 1" ex_collaborators _ _ 2 ?area, OF h1 h2 h3 h4]
  have r: "test_classification ex_collaborators (ex_self 1) [[1, 0], [1, 0]] [[1, 0], [1, 0]] 2
        = Inr 1"
    by (simp only: s)
  from h1 h2 ex_class_curve_0 a0 c1 r show ?thesis by (intro conjI)
qed

text \<open>
  Claim C10.  The setter of \<open>device\<close>, given a value other than \<open>cpu\<close> and \<open>gpu\<close>,
  raises ValueError, and the evaluator it leaves behind has the unrecognised string as
  its device: the assignment precedes the test.
\<close>

theorem device_setter_unrecognized:
  assumes "device \<notin> {''cpu'', ''gpu''}"
  shows \<open>device_setter device self =
    (Inl (ValueError ''Incorrect "device" argument.Available values: "gpu", "cpu"''),
     self\<lparr>self_device := device\<rparr>)\<close>
  using assms by (simp add: device_setter_def py_bind_def py_raise_def)

theorem device_setter_unrecognized_witness:
  \<open>''tpu'' \<notin> {''cpu'', ''gpu''}
   \<and> device_setter ''tpu'' (ex_self 1) =
       (Inl (ValueError ''Incorrect "device" argument.Available values: "gpu", "cpu"''),
        (ex_self 1)\<lparr>self_device := ''tpu''\<rparr>)\<close>
proof -
  have h: "''tpu'' \<notin> {''cpu'', ''gpu''}" by simp
  show ?thesis
    by (rule conjI [OF h device_setter_unrecognized [OF h]])
qed

end
